theory Spec2Isabelle
  imports Complex_Main "HOL-Library.AList" "HOL-Library.Log_Nat"
begin

section \<open>JavaScript numbers\<close>

text \<open>
  The handler computes ratios with JavaScript's \<^verbatim>\<open>number\<close> type, the IEEE-754 double.
  The model keeps the three special values of that type, because the source divides by a
  capacity that may be zero: \<^verbatim>\<open>0 / 0\<close> is \<^verbatim>\<open>NaN\<close>, \<^verbatim>\<open>x / 0\<close> is \<^verbatim>\<open>Infinity\<close> for positive
  \<^verbatim>\<open>x\<close>, and every comparison with \<^verbatim>\<open>NaN\<close> is false. A finite double is the rational
  number it stands for; the two zeros, which no comparison tells apart, are one value.
\<close>

datatype jsnum = NaN | PosInf | NegInf | Fin rat

text \<open>
  The double nearest to the positive rational \<open>p / q\<close>, ties going to the even mantissa.
  The binary exponent \<open>e\<close> of \<open>p / q\<close> is one of the two candidates that the bit lengths
  of \<open>p\<close> and \<open>q\<close> leave; it is held at \<open>-1022\<close> from below for the subnormal numbers.
  The mantissa \<open>m\<close> is the integer nearest to \<open>p / q * 2 ^ s\<close> with \<open>s = 52 - e\<close>, and the
  result is \<open>m / 2 ^ s\<close>. The result would be \<open>2 ^ 1024\<close> or more, and is \<^verbatim>\<open>Infinity\<close>,
  when \<open>e\<close> is at least 1024, or is 1023 and the mantissa rounds up to \<open>2 ^ 53\<close>.
\<close>

definition round_pos :: "int \<Rightarrow> int \<Rightarrow> jsnum" where
  "round_pos p q =
     (let e0 = bitlen p - bitlen q;
          e = (if 0 \<le> e0 then (if q * 2 ^ nat e0 \<le> p then e0 else e0 - 1)
               else (if q \<le> p * 2 ^ nat (- e0) then e0 else e0 - 1));
          s = 52 - max e (- 1022);
          num = (if 0 \<le> s then p * 2 ^ nat s else p);
          den = (if 0 \<le> s then q else q * 2 ^ nat (- s));
          f = num div den;
          r = num mod den;
          m = (if 2 * r < den then f else if den < 2 * r then f + 1
               else if even f then f else f + 1)
      in if 1024 \<le> e \<or> (e = 1023 \<and> m = 2 ^ 53) then PosInf
         else Fin (if 0 \<le> s then of_int m / 2 ^ nat s else of_int m * 2 ^ nat (- s)))"

fun js_neg :: "jsnum \<Rightarrow> jsnum" where
  "js_neg NaN = NaN"
| "js_neg PosInf = NegInf"
| "js_neg NegInf = PosInf"
| "js_neg (Fin a) = Fin (- a)"

text \<open>
  The rounding of an exact result to a double, as every arithmetic operation and every
  decimal literal of the source does it.
\<close>

definition round_double :: "rat \<Rightarrow> jsnum" where
  "round_double x =
     (case quotient_of x of (p, q) \<Rightarrow>
        if p = 0 then Fin 0
        else if 0 < p then round_pos p q
        else js_neg (round_pos (- p) q))"

text \<open>The value of a decimal literal such as \<^verbatim>\<open>0.1\<close>.\<close>

definition double_of :: "rat \<Rightarrow> rat" where
  "double_of x = (case round_double x of Fin v \<Rightarrow> v | _ \<Rightarrow> 0)"

text \<open>
  \<^verbatim>\<open>a / b\<close> for two non-negative integral numbers that the number type holds exactly: the
  exact quotient, rounded.
\<close>

definition js_div :: "nat \<Rightarrow> nat \<Rightarrow> jsnum" where
  "js_div a b =
     (if b = 0 then (if a = 0 then NaN else PosInf)
      else round_double (of_nat a / of_nat b))"

text \<open>\<^verbatim>\<open>x - y\<close>.\<close>

fun js_sub :: "jsnum \<Rightarrow> jsnum \<Rightarrow> jsnum" where
  "js_sub NaN y = NaN"
| "js_sub x NaN = NaN"
| "js_sub (Fin a) (Fin b) = round_double (a - b)"
| "js_sub (Fin a) PosInf = NegInf"
| "js_sub (Fin a) NegInf = PosInf"
| "js_sub PosInf PosInf = NaN"
| "js_sub PosInf y = PosInf"
| "js_sub NegInf NegInf = NaN"
| "js_sub NegInf y = NegInf"

text \<open>\<^verbatim>\<open>Math.abs\<close>.\<close>

fun js_abs :: "jsnum \<Rightarrow> jsnum" where
  "js_abs NaN = NaN"
| "js_abs PosInf = PosInf"
| "js_abs NegInf = PosInf"
| "js_abs (Fin a) = Fin \<bar>a\<bar>"

text \<open>The comparisons \<^verbatim>\<open>x < y\<close> and \<^verbatim>\<open>x > y\<close>.\<close>

fun js_lt :: "jsnum \<Rightarrow> jsnum \<Rightarrow> bool" where
  "js_lt (Fin a) (Fin b) = (a < b)"
| "js_lt NaN y = False"
| "js_lt x NaN = False"
| "js_lt PosInf y = False"
| "js_lt x PosInf = True"
| "js_lt NegInf NegInf = False"
| "js_lt NegInf y = True"
| "js_lt x NegInf = False"

definition js_gt :: "jsnum \<Rightarrow> jsnum \<Rightarrow> bool" where
  "js_gt x y = js_lt y x"

section \<open>Data model\<close>

text \<open>
  Modelled from the spec: the declarations of \<^verbatim>\<open>Channel\<close>, \<^verbatim>\<open>HealthCriteria\<close>,
  \<^verbatim>\<open>ChannelSummary\<close> and \<^verbatim>\<open>ChannelQueryResult\<close> (module \<^verbatim>\<open>types/channel\<close>), whose
  source is not available. A channel has the five fields of the spec's data model, which
  are also the fields the handler reads; the amounts are unsigned integers, and the sums
  of amounts are the exact ones (a sum of integers is exact in doubles below \<open>2 ^ 53\<close>). The handler
  adds \<^verbatim>\<open>remote_alias\<close> and, when the alias could not be retrieved, \<^verbatim>\<open>_error\<close>; the
  summary has the fields the handler writes.
\<close>

record channel =
  remote_pubkey :: string
  capacity :: nat
  local_balance :: nat
  remote_balance :: nat
  active :: bool

text \<open>The object stored under \<^verbatim>\<open>_error\<close>: \<^verbatim>\<open>{ type, message }\<close>.\<close>

record errorInfo =
  info_type :: string
  info_message :: string

text \<open>A channel after enrichment; \<open>error_info\<close> is the optional field \<^verbatim>\<open>_error\<close>.\<close>

record enriched_channel = channel +
  remote_alias :: string
  error_info :: "errorInfo option"

record healthCriteria =
  minLocalRatio :: rat
  maxLocalRatio :: rat

record 'c channelSummary =
  totalCapacity :: nat
  totalLocalBalance :: nat
  totalRemoteBalance :: nat
  activeChannels :: nat
  inactiveChannels :: nat
  averageCapacity :: jsnum
  mostImbalancedChannel :: "'c option"
  healthyChannels :: int
  unhealthyChannels :: nat

section \<open>The constructor's default health criteria\<close>

text \<open>The literals \<^verbatim>\<open>0.1\<close> and \<^verbatim>\<open>0.9\<close> of the constructor.\<close>

definition default_healthCriteria :: healthCriteria where
  "default_healthCriteria =
     \<lparr> minLocalRatio = double_of (1 / 10), maxLocalRatio = double_of (9 / 10) \<rparr>"

text \<open>\<^verbatim>\<open>this.healthCriteria = healthCriteria || { ... }\<close>.\<close>

definition init_healthCriteria :: "healthCriteria option \<Rightarrow> healthCriteria" where
  "init_healthCriteria arg = (case arg of Some hc \<Rightarrow> hc | None \<Rightarrow> default_healthCriteria)"

section \<open>calculateChannelSummary\<close>

text \<open>
  One iteration of the \<^verbatim>\<open>forEach\<close> that looks for the most imbalanced channel. The state
  is the pair of the two \<^verbatim>\<open>let\<close> variables \<^verbatim>\<open>mostImbalancedChannel\<close> and
  \<^verbatim>\<open>highestImbalanceRatio\<close>.
\<close>

definition imbalance_step ::
  "('a channel_scheme option \<times> jsnum) \<Rightarrow> 'a channel_scheme \<Rightarrow> ('a channel_scheme option \<times> jsnum)"
where
  "imbalance_step st channel =
     (if capacity channel > 0 then
        (let localRatio = js_div (local_balance channel) (capacity channel);
             imbalanceRatio = js_abs (js_sub (Fin (1 / 2)) localRatio)
         in if js_gt imbalanceRatio (snd st) then (Some channel, imbalanceRatio) else st)
      else st)"

text \<open>The predicate of the \<^verbatim>\<open>filter\<close> that counts the unhealthy channels.\<close>

definition is_unhealthy :: "healthCriteria \<Rightarrow> 'a channel_scheme \<Rightarrow> bool" where
  "is_unhealthy hc channel =
     (if \<not> active channel then True
      else (let localRatio = js_div (local_balance channel) (capacity channel)
            in js_lt localRatio (Fin (minLocalRatio hc)) \<or>
               js_gt localRatio (Fin (maxLocalRatio hc))))"

definition calculateChannelSummary ::
  "healthCriteria \<Rightarrow> 'a channel_scheme list \<Rightarrow> ('a channel_scheme) channelSummary"
where
  "calculateChannelSummary hc channels =
     (if length channels = 0 then
        \<lparr> totalCapacity = 0, totalLocalBalance = 0, totalRemoteBalance = 0,
          activeChannels = 0, inactiveChannels = 0, averageCapacity = Fin 0,
          mostImbalancedChannel = None, healthyChannels = 0, unhealthyChannels = 0 \<rparr>
      else
        (let activeChannels = filter (\<lambda>c. active c) channels;
             inactiveChannels = filter (\<lambda>c. \<not> active c) channels;
             totalCapacity = foldl (\<lambda>sum channel. sum + capacity channel) 0 channels;
             totalLocalBalance = foldl (\<lambda>sum channel. sum + local_balance channel) 0 channels;
             totalRemoteBalance = foldl (\<lambda>sum channel. sum + remote_balance channel) 0 channels;
             mostImbalancedChannel = fst (foldl imbalance_step (None, Fin 0) channels);
             unhealthyChannels = length (filter (is_unhealthy hc) channels)
         in \<lparr> totalCapacity = totalCapacity,
              totalLocalBalance = totalLocalBalance,
              totalRemoteBalance = totalRemoteBalance,
              activeChannels = length activeChannels,
              inactiveChannels = length inactiveChannels,
              averageCapacity = js_div totalCapacity (length channels),
              mostImbalancedChannel = mostImbalancedChannel,
              healthyChannels = int (length channels) - int unhealthyChannels,
              unhealthyChannels = unhealthyChannels \<rparr>))"

section \<open>External collaborators\<close>

text \<open>
  A value that JavaScript code throws, as the handler's \<^verbatim>\<open>catch\<close> blocks see it: an
  \<^verbatim>\<open>Error\<close> instance with its message, or any other value, represented by the string
  that \<^verbatim>\<open>String(value)\<close> gives.
\<close>

datatype js_error = Error (message: string)

datatype js_value = IsError js_error | NotError string

text \<open>
  The \<^verbatim>\<open>channels\<close> property of the object \<^verbatim>\<open>lnService.getChannels\<close> resolves to: absent
  (or any other falsy value), a value that is not an array, or an array of channels.
\<close>

datatype channels_field = Absent | NotArray | Array "channel list"

text \<open>
  What \<^verbatim>\<open>lnService.getChannels\<close> resolves to: \<^verbatim>\<open>undefined\<close> or \<^verbatim>\<open>null\<close>, or an object, of
  which the handler reads the \<^verbatim>\<open>channels\<close> property.
\<close>

datatype channels_response = Nullish | Response channels_field

text \<open>\<^verbatim>\<open>ChannelQueryResult\<close>: the properties \<^verbatim>\<open>channels\<close> and \<^verbatim>\<open>summary\<close>.\<close>

record channelQueryResult =
  cqr_channels :: "enriched_channel list"
  cqr_summary :: "enriched_channel channelSummary"

text \<open>
  The calls the handler makes to its collaborators, in the order it makes them. The second
  argument of every operation below is the trace so far, and every operation returns the
  extended trace next to its result.
\<close>

datatype call =
    GetLnd
  | GetChannels
  | GetNodeInfo string
  | FormatChannelList
  | FormatChannelHealth
  | FormatChannelLiquidity

text \<open>
  The source of the collaborators (\<^verbatim>\<open>LndClient\<close>, \<^verbatim>\<open>ln-service\<close>, \<^verbatim>\<open>sanitizeError\<close> and
  \<^verbatim>\<open>ChannelFormatter\<close>) is not available: they are parameters.
  \<^item> \<open>getLnd k\<close> is the outcome of the \<open>k\<close>-th call (counted from 0) of
    \<^verbatim>\<open>lndClient.getLnd()\<close>: \<open>None\<close> when it returns the handle, \<open>Some v\<close> when it throws \<open>v\<close>.
  \<^item> \<open>lnService_getChannels\<close> is the outcome of \<^verbatim>\<open>lnService.getChannels\<close>: a rejection,
    or the value it resolves to.
  \<^item> \<open>destructuring_TypeError\<close> is the \<^verbatim>\<open>TypeError\<close> that the engine throws when
    \<^verbatim>\<open>undefined\<close> or \<^verbatim>\<open>null\<close> is destructured.
  \<^item> \<open>getNodeInfo pubkey\<close> is the outcome of \<^verbatim>\<open>lnService.getNodeInfo\<close> for that key: a
    rejection, or \<^verbatim>\<open>nodeInfo?.alias\<close> (\<open>None\<close> when \<^verbatim>\<open>nodeInfo\<close> or its alias is missing).
  \<^item> \<open>sanitizeError\<close> returns an \<^verbatim>\<open>Error\<close> and does not throw; neither does the logger,
    whose calls are left out.
  \<^item> the three formatter views either return a text or throw.
\<close>

record env =
  getLnd :: "nat \<Rightarrow> js_value option"
  lnService_getChannels :: "js_value + channels_response"
  destructuring_TypeError :: js_error
  getNodeInfo :: "string \<Rightarrow> js_value + string option"
  sanitizeError :: "js_value \<Rightarrow> js_error"
  formatChannelList :: "channelQueryResult \<Rightarrow> js_value + string"
  formatChannelHealth :: "channelQueryResult \<Rightarrow> js_value + string"
  formatChannelLiquidity :: "channelQueryResult \<Rightarrow> js_value + string"

definition lnd_calls :: "call list \<Rightarrow> nat" where
  "lnd_calls t = length (filter (\<lambda>c. c = GetLnd) t)"

text \<open>The public keys for which a node-info lookup was issued, in order.\<close>

fun lookups :: "call list \<Rightarrow> string list" where
  "lookups [] = []"
| "lookups (GetNodeInfo k # t) = k # lookups t"
| "lookups (c # t) = lookups t"

text \<open>The formatter views that were invoked.\<close>

definition is_format :: "call \<Rightarrow> bool" where
  "is_format c = (c = FormatChannelList \<or> c = FormatChannelHealth \<or> c = FormatChannelLiquidity)"

definition formatter_calls :: "call list \<Rightarrow> call list" where
  "formatter_calls t = filter is_format t"

section \<open>fetchRawChannelData\<close>

text \<open>
  The statement \<^verbatim>\<open>const { channels } = await lnService.getChannels({ lnd })\<close>: the
  \<^verbatim>\<open>await\<close> throws what the call was rejected with; the destructuring of a response that
  is \<^verbatim>\<open>undefined\<close> or \<^verbatim>\<open>null\<close> throws the \<^verbatim>\<open>TypeError\<close>; otherwise \<^verbatim>\<open>channels\<close> is the
  property of the response.
\<close>

definition getChannels :: "env \<Rightarrow> js_value + channels_field" where
  "getChannels e =
     (case lnService_getChannels e of
        Inl v \<Rightarrow> Inl v
      | Inr Nullish \<Rightarrow> Inl (IsError (destructuring_TypeError e))
      | Inr (Response channels) \<Rightarrow> Inr channels)"

definition fetchRawChannelData :: "env \<Rightarrow> call list \<Rightarrow> (js_value + channel list) \<times> call list" where
  "fetchRawChannelData e t =
     (case getLnd e (lnd_calls t) of
        Some v \<Rightarrow> (Inl v, t @ [GetLnd])
      | None \<Rightarrow>
          (case getChannels e of
             Inl v \<Rightarrow> (Inl v, t @ [GetLnd, GetChannels])
           | Inr Absent \<Rightarrow> (Inr [], t @ [GetLnd, GetChannels])
           | Inr NotArray \<Rightarrow> (Inr [], t @ [GetLnd, GetChannels])
           | Inr (Array channels) \<Rightarrow> (Inr channels, t @ [GetLnd, GetChannels])))"

section \<open>addNodeAliases\<close>

text \<open>
  A JavaScript \<^verbatim>\<open>Map\<close> with string keys is an association list in insertion order:
  \<^verbatim>\<open>has\<close> is membership among the keys, \<^verbatim>\<open>get\<close> is \<^const>\<open>map_of\<close>, \<^verbatim>\<open>set\<close> is
  \<^const>\<open>AList.update\<close> (which overwrites in place or appends), and \<^verbatim>\<open>keys()\<close> is \<open>map fst\<close>.
  The lookups are issued one after the other, in the order of the keys, before any of
  them settles; \<^verbatim>\<open>Promise.all\<close> returns their results in that order. The order in
  which they settle only decides the order of the writes to \<^verbatim>\<open>errorMap\<close>, whose keys are
  pairwise distinct, so that the map is the same for every order.
\<close>

text \<open>\<^verbatim>\<open>x || 'Unknown'\<close> for a string that may be undefined: the empty string is falsy too.\<close>

definition or_Unknown :: "string option \<Rightarrow> string" where
  "or_Unknown x = (case x of None \<Rightarrow> ''Unknown'' | Some s \<Rightarrow> if s = [] then ''Unknown'' else s)"

text \<open>The first \<^verbatim>\<open>forEach\<close>: every key not yet present is entered with the empty string.\<close>

definition collect_pubkeys :: "channel list \<Rightarrow> (string \<times> string) list" where
  "collect_pubkeys channels =
     foldl (\<lambda>pubkeyMap channel.
              if remote_pubkey channel \<in> set (map fst pubkeyMap) then pubkeyMap
              else AList.update (remote_pubkey channel) [] pubkeyMap)
       [] channels"

text \<open>
  The body of one lookup. The result is the returned object \<^verbatim>\<open>{ pubkey, alias }\<close> and, on
  failure, the entry written to \<^verbatim>\<open>errorMap\<close>.
\<close>

definition lookup_alias :: "env \<Rightarrow> string \<Rightarrow> (string \<times> string) \<times> errorInfo option" where
  "lookup_alias e pubkey =
     (case getNodeInfo e pubkey of
        Inr alias \<Rightarrow> ((pubkey, or_Unknown alias), None)
      | Inl v \<Rightarrow>
          ((pubkey, ''Unknown (Error retrieving)''),
           Some \<lparr> info_type = ''alias_retrieval_failed'',
                  info_message = message (sanitizeError e v) \<rparr>))"

text \<open>The entries of \<^verbatim>\<open>errorMap\<close> after the lookups for the given keys.\<close>

definition build_errorMap :: "env \<Rightarrow> string list \<Rightarrow> (string \<rightharpoonup> errorInfo)" where
  "build_errorMap e pubkeys =
     foldl (\<lambda>errorMap pubkey.
              case snd (lookup_alias e pubkey) of
                None \<Rightarrow> errorMap
              | Some errorInfo \<Rightarrow> errorMap(pubkey \<mapsto> errorInfo))
       Map.empty pubkeys"

text \<open>The final \<^verbatim>\<open>channels.map\<close>: the spread of the channel, then the added properties.\<close>

definition add_alias ::
  "(string \<times> string) list \<Rightarrow> (string \<rightharpoonup> errorInfo) \<Rightarrow> channel \<Rightarrow> enriched_channel"
where
  "add_alias pubkeyMap errorMap channel =
     (case errorMap (remote_pubkey channel) of
        Some errorInfo \<Rightarrow>
          channel.extend channel
            \<lparr> remote_alias = or_Unknown (map_of pubkeyMap (remote_pubkey channel)),
              error_info = Some errorInfo \<rparr>
      | None \<Rightarrow>
          channel.extend channel
            \<lparr> remote_alias = or_Unknown (map_of pubkeyMap (remote_pubkey channel)),
              error_info = None \<rparr>)"

text \<open>The \<^verbatim>\<open>channels.map\<close> of the outer \<^verbatim>\<open>catch\<close> block.\<close>

definition mark_failed :: "js_error \<Rightarrow> channel \<Rightarrow> enriched_channel" where
  "mark_failed sanitizedError channel =
     channel.extend channel
       \<lparr> remote_alias = ''Unknown (Error retrieving)'',
         error_info = Some \<lparr> info_type = ''alias_retrieval_failed'',
                             info_message = message sanitizedError \<rparr> \<rparr>"

definition addNodeAliases :: "env \<Rightarrow> call list \<Rightarrow> channel list \<Rightarrow> enriched_channel list \<times> call list" where
  "addNodeAliases e t channels =
     (case getLnd e (lnd_calls t) of
        Some v \<Rightarrow> (map (mark_failed (sanitizeError e v)) channels, t @ [GetLnd])
      | None \<Rightarrow>
          (let pubkeyMap0 = collect_pubkeys channels;
               pubkeys = map fst pubkeyMap0;
               errorMap = build_errorMap e pubkeys;
               nodeInfos = map (\<lambda>pubkey. fst (lookup_alias e pubkey)) pubkeys;
               pubkeyMap = foldl (\<lambda>m info. AList.update (fst info) (snd info) m) pubkeyMap0 nodeInfos;
               result = map (add_alias pubkeyMap errorMap) channels
           in (result, t @ [GetLnd] @ map GetNodeInfo pubkeys)))"

section \<open>enrichChannelsWithMetadata and getChannelData\<close>

definition enrichChannelsWithMetadata ::
  "env \<Rightarrow> call list \<Rightarrow> channel list \<Rightarrow> enriched_channel list \<times> call list"
where
  "enrichChannelsWithMetadata e t channels =
     (if length channels = 0 then ([], t) else addNodeAliases e t channels)"

definition getChannelData ::
  "healthCriteria \<Rightarrow> env \<Rightarrow> call list \<Rightarrow> (js_value + channelQueryResult) \<times> call list"
where
  "getChannelData hc e t =
     (case fetchRawChannelData e t of
        (Inl v, t1) \<Rightarrow> (Inl (IsError (sanitizeError e v)), t1)
      | (Inr channels, t1) \<Rightarrow>
          (case enrichChannelsWithMetadata e t1 channels of
             (enrichedChannels, t2) \<Rightarrow>
               (Inr \<lparr> cqr_channels = enrichedChannels,
                      cqr_summary = calculateChannelSummary hc enrichedChannels \<rparr>, t2)))"

section \<open>handleQuery\<close>

text \<open>
  Modelled from the spec: the declaration of \<^verbatim>\<open>Intent\<close> (module \<^verbatim>\<open>types/intent\<close>), whose
  source is not available. The handler reads its \<^verbatim>\<open>type\<close>, a string, and logs its
  \<^verbatim>\<open>query\<close>.
\<close>

record intent =
  intent_type :: string
  query :: string

text \<open>
  \<^verbatim>\<open>QueryResult\<close>. The field \<open>q_data\<close> is \<open>None\<close> for the empty object \<^verbatim>\<open>{}\<close>; the optional
  \<^verbatim>\<open>error\<close> is \<open>None\<close> when the property is not set.
\<close>

record queryResult =
  q_type :: string
  q_text :: string
  q_response :: string
  q_data :: "channelQueryResult option"
  q_error :: "js_error option"

text \<open>\<^verbatim>\<open>error instanceof Error ? error.message : String(error)\<close>.\<close>

definition error_text :: "js_value \<Rightarrow> string" where
  "error_text v = (case v of IsError err \<Rightarrow> message err | NotError s \<Rightarrow> s)"

text \<open>The object the \<^verbatim>\<open>catch\<close> block of \<^verbatim>\<open>handleQuery\<close> returns.\<close>

definition error_result :: "js_value \<Rightarrow> queryResult" where
  "error_result v =
     \<lparr> q_type = ''error'',
       q_text = ''Error processing your query: '' @ error_text v,
       q_response = ''Error processing your query: '' @ error_text v,
       q_data = None,
       q_error = Some (case v of IsError err \<Rightarrow> err | NotError s \<Rightarrow> Error s) \<rparr>"

definition guidance :: string where
  "guidance = ''I didn't understand that query. Try asking about your channel list, health, or liquidity.''"

text \<open>
  One of the three known cases of the \<^verbatim>\<open>switch\<close>: the view is called for \<^verbatim>\<open>text\<close> and
  again for \<^verbatim>\<open>response\<close>; when a call throws, the thrown value leaves the \<^verbatim>\<open>try\<close> block.
\<close>

definition format_case ::
  "string \<Rightarrow> call \<Rightarrow> (channelQueryResult \<Rightarrow> js_value + string) \<Rightarrow> channelQueryResult \<Rightarrow>
   call list \<Rightarrow> (js_value + queryResult) \<times> call list"
where
  "format_case ty c view channelData t =
     (case view channelData of
        Inl v \<Rightarrow> (Inl v, t @ [c])
      | Inr txt \<Rightarrow>
          (case view channelData of
             Inl v \<Rightarrow> (Inl v, t @ [c, c])
           | Inr resp \<Rightarrow>
               (Inr \<lparr> q_type = ty, q_text = txt, q_response = resp,
                      q_data = Some channelData, q_error = None \<rparr>, t @ [c, c])))"

text \<open>The \<^verbatim>\<open>switch\<close> on \<^verbatim>\<open>intent.type\<close>.\<close>

definition format_response ::
  "env \<Rightarrow> intent \<Rightarrow> channelQueryResult \<Rightarrow> call list \<Rightarrow> (js_value + queryResult) \<times> call list"
where
  "format_response e i channelData t =
     (if intent_type i = ''channel_list'' then
        format_case ''channel_list'' FormatChannelList (formatChannelList e) channelData t
      else if intent_type i = ''channel_health'' then
        format_case ''channel_health'' FormatChannelHealth (formatChannelHealth e) channelData t
      else if intent_type i = ''channel_liquidity'' then
        format_case ''channel_liquidity'' FormatChannelLiquidity (formatChannelLiquidity e)
          channelData t
      else
        (Inr \<lparr> q_type = ''unknown'', q_text = guidance, q_response = guidance,
               q_data = None, q_error = None \<rparr>, t))"

text \<open>
  The \<^verbatim>\<open>try\<close> block: it fetches the channel data and formats them. \<open>Inl v\<close> stands for
  \<open>v\<close> being thrown inside the block.
\<close>

definition handleQuery_try ::
  "healthCriteria \<Rightarrow> env \<Rightarrow> call list \<Rightarrow> intent \<Rightarrow> (js_value + queryResult) \<times> call list"
where
  "handleQuery_try hc e t i =
     (case getChannelData hc e t of
        (Inl v, t1) \<Rightarrow> (Inl v, t1)
      | (Inr channelData, t1) \<Rightarrow> format_response e i channelData t1)"

text \<open>
  The whole method: what the \<^verbatim>\<open>try\<close> block returns, or the error result that the
  \<^verbatim>\<open>catch\<close> block builds from what was thrown.
\<close>

definition handleQuery ::
  "healthCriteria \<Rightarrow> env \<Rightarrow> call list \<Rightarrow> intent \<Rightarrow> queryResult \<times> call list"
where
  "handleQuery hc e t i =
     (case handleQuery_try hc e t i of
        (Inl v, t1) \<Rightarrow> (error_result v, t1)
      | (Inr result, t1) \<Rightarrow> (result, t1))"

section \<open>Notions of the specification\<close>

text \<open>
  The imbalance ratio of a channel, as the specification writes it:
  \<^verbatim>\<open>abs(0.5 - local_balance/capacity)\<close>, in the arithmetic of the source.
\<close>

definition imbalance_ratio :: "'a channel_scheme \<Rightarrow> jsnum" where
  "imbalance_ratio c = js_abs (js_sub (Fin (1 / 2)) (js_div (local_balance c) (capacity c)))"

section \<open>Sample data\<close>

text \<open>A channel with peer \<^verbatim>\<open>02aa\<close>, the given capacity, local balance and activity.\<close>

definition sample_channel :: "nat \<Rightarrow> nat \<Rightarrow> bool \<Rightarrow> channel" where
  "sample_channel c l a =
     \<lparr> remote_pubkey = ''02aa'', capacity = c, local_balance = l,
       remote_balance = c - l, active = a \<rparr>"

text \<open>
  Five channels: a balanced one, two with the local ratios 0.1 and 0.9, one without
  capacity and an inactive one.
\<close>

definition sample_portfolio :: "channel list" where
  "sample_portfolio =
     [sample_channel 1000 500 True, sample_channel 1000 100 True, sample_channel 1000 900 True,
      sample_channel 0 0 True, sample_channel 2000 1000 False]"

text \<open>Two channels with the mirrored local ratios 0.2 and 0.8.\<close>

definition sample_mirrored :: "channel list" where
  "sample_mirrored = [sample_channel 1000 200 True, sample_channel 1000 800 True]"

text \<open>Six channels with the local ratios 0.05, 0.5, 0.95, 0.5 (inactive), 0.1 and 0.9.\<close>

definition sample_ratios :: "channel list" where
  "sample_ratios =
     [sample_channel 1000 50 True, sample_channel 1000 500 True, sample_channel 1000 950 True,
      sample_channel 1000 500 False, sample_channel 1000 100 True, sample_channel 1000 900 True]"

text \<open>A channel with the given peer.\<close>

definition peer_channel :: "string \<Rightarrow> channel" where
  "peer_channel k =
     \<lparr> remote_pubkey = k, capacity = 1000, local_balance = 400, remote_balance = 600,
       active = True \<rparr>"

text \<open>Five channels that share three peers.\<close>

definition sample_peers :: "channel list" where
  "sample_peers =
     [peer_channel ''02aa'', peer_channel ''02bb'', peer_channel ''02aa'',
      peer_channel ''02cc'', peer_channel ''02bb'']"

text \<open>Channels of a peer without node info, of a peer with an empty alias and of a named peer.\<close>

definition sample_unnamed :: "channel list" where
  "sample_unnamed = [peer_channel ''02cc'', peer_channel ''02dd'', peer_channel ''02aa'']"

definition sample_sanitize :: "js_value \<Rightarrow> js_error" where
  "sample_sanitize v = Error (''sanitized: '' @ error_text v)"

text \<open>
  A node that returns the five channels; peer \<^verbatim>\<open>02aa\<close> is named \<^verbatim>\<open>alice\<close>, the lookup of
  \<^verbatim>\<open>02bb\<close> is rejected, \<^verbatim>\<open>02cc\<close> has no alias and \<^verbatim>\<open>02dd\<close> an empty one.
\<close>

definition sample_env :: env where
  "sample_env =
     \<lparr> getLnd = (\<lambda>k. None),
       lnService_getChannels = Inr (Response (Array sample_peers)),
       destructuring_TypeError =
         Error ''Cannot destructure property 'channels' of '(intermediate value)' as it is undefined.'',
       getNodeInfo = (\<lambda>k. if k = ''02aa'' then Inr (Some ''alice'')
                          else if k = ''02bb'' then Inl (IsError (Error ''no route to /home/lnd''))
                          else if k = ''02cc'' then Inr None
                          else if k = ''02dd'' then Inr (Some [])
                          else Inr (Some ''peer'')),
       sanitizeError = sample_sanitize,
       formatChannelList = (\<lambda>d. Inr ''list''),
       formatChannelHealth = (\<lambda>d. Inr ''health''),
       formatChannelLiquidity = (\<lambda>d. Inr ''liquidity'') \<rparr>"

text \<open>The same node when \<^verbatim>\<open>getLnd()\<close> throws a string.\<close>

definition sample_env_down :: env where
  "sample_env_down = sample_env \<lparr> getLnd := (\<lambda>k. Some (NotError ''connection lost'')) \<rparr>"

text \<open>The same node when the channel fetch is rejected.\<close>

definition sample_env_rejecting :: env where
  "sample_env_rejecting =
     sample_env
       \<lparr> lnService_getChannels := Inl (IsError (Error ''rpc failed: /home/lnd/tls.cert'')) \<rparr>"

text \<open>The same node when the response has no \<^verbatim>\<open>channels\<close> property.\<close>

definition sample_env_absent :: env where
  "sample_env_absent = sample_env \<lparr> lnService_getChannels := Inr (Response Absent) \<rparr>"

text \<open>The same node when the \<^verbatim>\<open>channels\<close> property is not an array.\<close>

definition sample_env_not_array :: env where
  "sample_env_not_array = sample_env \<lparr> lnService_getChannels := Inr (Response NotArray) \<rparr>"

text \<open>The same node when the fetch resolves to \<^verbatim>\<open>undefined\<close>.\<close>

definition sample_env_nullish :: env where
  "sample_env_nullish = sample_env \<lparr> lnService_getChannels := Inr Nullish \<rparr>"

definition sample_intent_bogus :: intent where
  "sample_intent_bogus = \<lparr> intent_type = ''bogus'', query = ''open a channel'' \<rparr>"

definition sample_intent_list :: intent where
  "sample_intent_list = \<lparr> intent_type = ''channel_list'', query = ''list my channels'' \<rparr>"

section \<open>Properties of the summary\<close>

subsection \<open>Rounding and order\<close>

lemma round_pos_not_NaN: "round_pos p q \<noteq> NaN"
  by (simp add: round_pos_def Let_def)

lemma round_double_not_NaN: "round_double x \<noteq> NaN"
proof (cases "quotient_of x")
  case (Pair p q)
  have "js_neg (round_pos (- p) q) \<noteq> NaN"
    using round_pos_not_NaN [of "- p" q] by (cases "round_pos (- p) q") simp_all
  with Pair show ?thesis
    by (simp add: round_double_def round_pos_not_NaN)
qed

text \<open>On the numbers other than \<^verbatim>\<open>NaN\<close> the comparison \<^verbatim>\<open><\<close> is a strict linear order.\<close>

lemma js_lt_irrefl: "\<not> js_lt a a"
  by (cases a) simp_all

lemma js_lt_trans: "js_lt a b \<Longrightarrow> js_lt b c \<Longrightarrow> js_lt a c"
  by (cases a; cases b; cases c) simp_all

lemma js_lt_asym: "js_lt a b \<Longrightarrow> \<not> js_lt b a"
  by (cases a; cases b) simp_all

lemma js_lt_linear: "a \<noteq> NaN \<Longrightarrow> b \<noteq> NaN \<Longrightarrow> js_lt a b \<or> a = b \<or> js_lt b a"
  by (cases a; cases b) auto

lemma js_neg_js_neg: "js_neg (js_neg y) = y"
  by (cases y) simp_all

lemma round_double_minus: "round_double (- x) = js_neg (round_double x)"
proof (cases "quotient_of x")
  case (Pair p q)
  then have "quotient_of (- x) = (- p, q)"
    by (simp add: rat_uminus_code)
  with Pair show ?thesis
    by (simp add: round_double_def js_neg_js_neg)
qed

text \<open>
  The doubles nearest to the ratios of the sample channels, and to the differences that
  the loop of the most imbalanced channel forms from them, by computation.
\<close>

lemma round_double_samples:
  "round_double 0 = Fin 0"
  "round_double (1 / 20) = Fin (3602879701896397 / 72057594037927936)"
  "round_double (1 / 2) = Fin (1 / 2)"
  "round_double (19 / 20) = Fin (4278419646001971 / 4503599627370496)"
  "round_double (1 / 10) = Fin (3602879701896397 / 36028797018963968)"
  "round_double (9 / 10) = Fin (8106479329266893 / 9007199254740992)"
  "round_double (1 / 5) = Fin (3602879701896397 / 18014398509481984)"
  "round_double (4 / 5) = Fin (3602879701896397 / 4503599627370496)"
  "round_double (14411518807585587 / 36028797018963968) =
     Fin (3602879701896397 / 9007199254740992)"
  "round_double (3602879701896397 / 9007199254740992) =
     Fin (3602879701896397 / 9007199254740992)"
  "round_double (5404319552844595 / 18014398509481984) =
     Fin (5404319552844595 / 18014398509481984)"
  "round_double (1351079888211149 / 4503599627370496) =
     Fin (1351079888211149 / 4503599627370496)"
  by code_simp+

text \<open>The rounding at a third and at two ties between neighbouring doubles.\<close>

lemma round_double_checks:
  "round_double (1 / 3) = Fin (6004799503160661 / 18014398509481984)"
  "round_double 9007199254740993 = Fin 9007199254740992"
  "round_double 9007199254740995 = Fin 9007199254740996"
  by code_simp+

lemmas sample_eval =
  round_double_samples round_double_minus js_div_def js_gt_def imbalance_ratio_def
  default_healthCriteria_def double_of_def sample_channel_def

lemma double_of_tenths:
  "double_of (1 / 10) = 3602879701896397 / 36028797018963968"
  "double_of (9 / 10) = 8106479329266893 / 9007199254740992"
  by (simp_all add: sample_eval)

subsection \<open>Healthy and unhealthy channels\<close>

lemma unhealthyChannels_filter:
  "unhealthyChannels (calculateChannelSummary hc channels) =
     length (filter (is_unhealthy hc) channels)"
  by (simp add: calculateChannelSummary_def Let_def)

lemma healthyChannels_filter:
  "healthyChannels (calculateChannelSummary hc channels) =
     int (length (filter (\<lambda>c. \<not> is_unhealthy hc c) channels))"
proof -
  have "length (filter (is_unhealthy hc) channels) +
        length (filter (\<lambda>c. \<not> is_unhealthy hc c) channels) = length channels"
    by (rule sum_length_filter_compl)
  then show ?thesis
    by (simp add: calculateChannelSummary_def Let_def)
qed

lemma is_unhealthy_js:
  "is_unhealthy hc =
     (\<lambda>c. \<not> active c \<or>
          js_lt (js_div (local_balance c) (capacity c)) (Fin (minLocalRatio hc)) \<or>
          js_gt (js_div (local_balance c) (capacity c)) (Fin (maxLocalRatio hc)))"
  by (rule ext) (simp add: is_unhealthy_def Let_def)

lemma is_unhealthy_positive_capacity:
  "capacity c > 0 \<Longrightarrow>
   is_unhealthy hc c =
     (\<not> active c \<or>
      js_lt (round_double (of_nat (local_balance c) / of_nat (capacity c)))
        (Fin (minLocalRatio hc)) \<or>
      js_gt (round_double (of_nat (local_balance c) / of_nat (capacity c)))
        (Fin (maxLocalRatio hc)))"
  by (simp add: is_unhealthy_def Let_def js_div_def)

text \<open>
  Claim C2. For every list of channels and every health criteria, the healthy and the
  unhealthy count of the summary add up to the number of channels; the healthy count,
  computed by a subtraction, is never negative.
\<close>

theorem summary_healthy_plus_unhealthy:
  "0 \<le> healthyChannels (calculateChannelSummary hc channels) \<and>
   healthyChannels (calculateChannelSummary hc channels) +
     int (unhealthyChannels (calculateChannelSummary hc channels)) = int (length channels)"
  by (simp add: calculateChannelSummary_def Let_def)

text \<open>
  Claim C6. The summary counts as unhealthy exactly the channels that are inactive or
  whose local ratio \<^verbatim>\<open>local_balance / capacity\<close> is strictly below \<open>minLocalRatio\<close> or
  strictly above \<open>maxLocalRatio\<close>, and as healthy all the others. The ratio is the
  JavaScript quotient; when every capacity is positive it is the rational quotient rounded
  to the nearest double, and the count is the one of the third conjunct. The order of the
  two bounds plays no role.
\<close>

theorem unhealthy_count_characterised:
  "unhealthyChannels (calculateChannelSummary hc channels) =
     length (filter (\<lambda>c. \<not> active c \<or>
                js_lt (js_div (local_balance c) (capacity c)) (Fin (minLocalRatio hc)) \<or>
                js_gt (js_div (local_balance c) (capacity c)) (Fin (maxLocalRatio hc)))
              channels) \<and>
   healthyChannels (calculateChannelSummary hc channels) =
     int (length (filter (\<lambda>c. active c \<and>
                \<not> js_lt (js_div (local_balance c) (capacity c)) (Fin (minLocalRatio hc)) \<and>
                \<not> js_gt (js_div (local_balance c) (capacity c)) (Fin (maxLocalRatio hc)))
              channels)) \<and>
   ((\<forall>c\<in>set channels. capacity c > 0) \<longrightarrow>
      unhealthyChannels (calculateChannelSummary hc channels) =
        length (filter (\<lambda>c. \<not> active c \<or>
                   js_lt (round_double (of_nat (local_balance c) / of_nat (capacity c)))
                     (Fin (minLocalRatio hc)) \<or>
                   js_gt (round_double (of_nat (local_balance c) / of_nat (capacity c)))
                     (Fin (maxLocalRatio hc)))
                 channels))"
proof (intro conjI impI)
  show "unhealthyChannels (calculateChannelSummary hc channels) =
     length (filter (\<lambda>c. \<not> active c \<or>
                js_lt (js_div (local_balance c) (capacity c)) (Fin (minLocalRatio hc)) \<or>
                js_gt (js_div (local_balance c) (capacity c)) (Fin (maxLocalRatio hc)))
              channels)"
    by (simp add: unhealthyChannels_filter is_unhealthy_js)
  show "healthyChannels (calculateChannelSummary hc channels) =
     int (length (filter (\<lambda>c. active c \<and>
                \<not> js_lt (js_div (local_balance c) (capacity c)) (Fin (minLocalRatio hc)) \<and>
                \<not> js_gt (js_div (local_balance c) (capacity c)) (Fin (maxLocalRatio hc)))
              channels))"
    by (simp add: healthyChannels_filter is_unhealthy_js)
  assume "\<forall>c\<in>set channels. capacity c > 0"
  then have "filter (is_unhealthy hc) channels =
      filter (\<lambda>c. \<not> active c \<or>
                js_lt (round_double (of_nat (local_balance c) / of_nat (capacity c)))
                  (Fin (minLocalRatio hc)) \<or>
                js_gt (round_double (of_nat (local_balance c) / of_nat (capacity c)))
                  (Fin (maxLocalRatio hc))) channels"
    by (intro filter_cong refl) (simp add: is_unhealthy_positive_capacity)
  then show "unhealthyChannels (calculateChannelSummary hc channels) =
        length (filter (\<lambda>c. \<not> active c \<or>
                   js_lt (round_double (of_nat (local_balance c) / of_nat (capacity c)))
                     (Fin (minLocalRatio hc)) \<or>
                   js_gt (round_double (of_nat (local_balance c) / of_nat (capacity c)))
                     (Fin (maxLocalRatio hc)))
                 channels)"
    by (simp add: unhealthyChannels_filter)
qed

lemma sample_ratios_counts:
  "unhealthyChannels (calculateChannelSummary default_healthCriteria
      [sample_channel 1000 50 True]) = 1"
  "unhealthyChannels (calculateChannelSummary default_healthCriteria sample_ratios) = 3"
  "healthyChannels (calculateChannelSummary default_healthCriteria sample_ratios) = 3"
  by (simp_all add: calculateChannelSummary_def is_unhealthy_def Let_def sample_ratios_def
        sample_eval)

text \<open>
  Under the default criteria \<open>[0.1, 0.9]\<close> the channel with ratio 0.05 is unhealthy; of
  the six sample channels the ones with ratio 0.05 and 0.95 and the inactive one are
  unhealthy, the ones with ratio 0.5, 0.1 and 0.9 are healthy.
\<close>

theorem unhealthy_count_characterised_witness:
  "minLocalRatio default_healthCriteria < maxLocalRatio default_healthCriteria \<and>
   list_all (\<lambda>c. capacity c > 0) sample_ratios \<and>
   (of_nat (local_balance (sample_channel 1000 50 True)) /
      of_nat (capacity (sample_channel 1000 50 True)) :: rat) = 1 / 20 \<and>
   unhealthyChannels (calculateChannelSummary default_healthCriteria
      [sample_channel 1000 50 True]) = 1 \<and>
   unhealthyChannels (calculateChannelSummary default_healthCriteria sample_ratios) = 3 \<and>
   healthyChannels (calculateChannelSummary default_healthCriteria sample_ratios) = 3"
proof -
  have crit: "minLocalRatio default_healthCriteria < maxLocalRatio default_healthCriteria"
    by (simp add: default_healthCriteria_def double_of_tenths)
  have pos: "list_all (\<lambda>c. capacity c > 0) sample_ratios"
    by (simp add: sample_ratios_def sample_channel_def)
  have ratio: "(of_nat (local_balance (sample_channel 1000 50 True)) /
      of_nat (capacity (sample_channel 1000 50 True)) :: rat) = 1 / 20"
    by (simp add: sample_channel_def)
  from unhealthy_count_characterised
          [where hc = default_healthCriteria and channels = sample_ratios]
       unhealthy_count_characterised
          [where hc = default_healthCriteria and channels = "[sample_channel 1000 50 True]"]
       crit pos ratio sample_ratios_counts
  show ?thesis by simp
qed

subsection \<open>The most imbalanced channel\<close>

lemma imbalance_step_positive:
  "capacity c > 0 \<Longrightarrow>
   imbalance_step (b, h) c =
     (if js_lt h (imbalance_ratio c) then (Some c, imbalance_ratio c) else (b, h))"
  by (simp add: imbalance_step_def js_gt_def imbalance_ratio_def Let_def)

lemma imbalance_step_no_capacity:
  "capacity c = 0 \<Longrightarrow> imbalance_step st c = st"
  by (simp add: imbalance_step_def)

text \<open>With a positive capacity the imbalance ratio is a number, and not a negative one.\<close>

lemma imbalance_ratio_range:
  assumes "capacity c > 0"
  shows "(\<exists>r\<ge>0. imbalance_ratio c = Fin r) \<or> imbalance_ratio c = PosInf"
proof -
  have d: "js_div (local_balance c) (capacity c) \<noteq> NaN"
    using assms by (simp add: js_div_def round_double_not_NaN)
  have "js_sub (Fin (1 / 2)) (js_div (local_balance c) (capacity c)) \<noteq> NaN"
    using d by (cases "js_div (local_balance c) (capacity c)") (simp_all add: round_double_not_NaN)
  then show ?thesis
    by (cases "js_sub (Fin (1 / 2)) (js_div (local_balance c) (capacity c))")
       (simp_all add: imbalance_ratio_def)
qed

lemma imbalance_ratio_not_NaN: "capacity c > 0 \<Longrightarrow> imbalance_ratio c \<noteq> NaN"
  using imbalance_ratio_range [of c] by auto

lemma imbalance_ratio_zero:
  assumes "capacity c > 0" and "\<not> js_lt (Fin 0) (imbalance_ratio c)"
  shows "imbalance_ratio c = Fin 0"
  using imbalance_ratio_range [OF assms(1)] assms(2) by auto

text \<open>
  The invariant of the loop, after the channels \<open>xs\<close>: the highest ratio \<open>h\<close> is a number
  that no channel with capacity seen so far exceeds; no channel is held while \<open>h\<close> is still
  0; a held channel is the first one whose ratio is \<open>h\<close>.
\<close>

lemma foldl_imbalance_step:
  "\<exists>h. snd (foldl imbalance_step (None, Fin 0) xs) = h \<and> h \<noteq> NaN \<and>
      (\<forall>j<length xs. capacity (xs ! j) > 0 \<longrightarrow> \<not> js_lt h (imbalance_ratio (xs ! j))) \<and>
      (case fst (foldl imbalance_step (None, Fin 0) xs) of
         None \<Rightarrow> h = Fin 0
       | Some m \<Rightarrow> js_lt (Fin 0) h \<and>
           (\<exists>i<length xs. xs ! i = m \<and> capacity m > 0 \<and> imbalance_ratio m = h \<and>
              (\<forall>j<i. capacity (xs ! j) > 0 \<longrightarrow> js_lt (imbalance_ratio (xs ! j)) h)))"
proof (induction xs rule: rev_induct)
  case Nil
  show ?case by simp
next
  case (snoc x xs)
  obtain b h where st: "foldl imbalance_step (None, Fin 0) xs = (b, h)"
    by (cases "foldl imbalance_step (None, Fin 0) xs")
  from snoc st have h: "h \<noteq> NaN"
    and le: "\<forall>j<length xs. capacity (xs ! j) > 0 \<longrightarrow> \<not> js_lt h (imbalance_ratio (xs ! j))"
    and best: "case b of None \<Rightarrow> h = Fin 0
       | Some m \<Rightarrow> js_lt (Fin 0) h \<and>
           (\<exists>i<length xs. xs ! i = m \<and> capacity m > 0 \<and> imbalance_ratio m = h \<and>
              (\<forall>j<i. capacity (xs ! j) > 0 \<longrightarrow> js_lt (imbalance_ratio (xs ! j)) h))"
    by auto
  have zero_le: "h = Fin 0 \<or> js_lt (Fin 0) h"
    using best by (cases b) auto
  have keep: "\<exists>i<length (xs @ [x]). (xs @ [x]) ! i = m \<and> capacity m > 0 \<and>
            imbalance_ratio m = h \<and>
            (\<forall>j<i. capacity ((xs @ [x]) ! j) > 0 \<longrightarrow> js_lt (imbalance_ratio ((xs @ [x]) ! j)) h)"
    if "b = Some m" for m
  proof -
    from best that obtain i where i: "i < length xs" "xs ! i = m" "capacity m > 0"
      "imbalance_ratio m = h"
      "\<forall>j<i. capacity (xs ! j) > 0 \<longrightarrow> js_lt (imbalance_ratio (xs ! j)) h"
      by auto
    then have "\<forall>j<i. capacity ((xs @ [x]) ! j) > 0 \<longrightarrow>
        js_lt (imbalance_ratio ((xs @ [x]) ! j)) h"
      by (simp add: nth_append)
    with i show ?thesis
      by (intro exI[of _ i]) (simp add: nth_append)
  qed
  show ?case
  proof (cases "capacity x > 0 \<and> js_lt h (imbalance_ratio x)")
    case True
    then have new: "foldl imbalance_step (None, Fin 0) (xs @ [x]) = (Some x, imbalance_ratio x)"
      using st by (simp add: imbalance_step_positive)
    have nn: "imbalance_ratio x \<noteq> NaN"
      using True by (simp add: imbalance_ratio_not_NaN)
    have below: "js_lt (imbalance_ratio (xs ! j)) (imbalance_ratio x)"
      if "j < length xs" "capacity (xs ! j) > 0" for j
    proof -
      from le that have "\<not> js_lt h (imbalance_ratio (xs ! j))" by simp
      moreover have "imbalance_ratio (xs ! j) \<noteq> NaN"
        using that by (simp add: imbalance_ratio_not_NaN)
      ultimately have "imbalance_ratio (xs ! j) = h \<or> js_lt (imbalance_ratio (xs ! j)) h"
        using js_lt_linear [OF h, of "imbalance_ratio (xs ! j)"] by auto
      with True show ?thesis
        by (auto intro: js_lt_trans)
    qed
    have "\<forall>j<length (xs @ [x]). capacity ((xs @ [x]) ! j) > 0 \<longrightarrow>
            \<not> js_lt (imbalance_ratio x) (imbalance_ratio ((xs @ [x]) ! j))"
      using below by (auto simp: nth_append less_Suc_eq js_lt_irrefl dest: js_lt_asym)
    moreover have "\<forall>j<length xs. capacity ((xs @ [x]) ! j) > 0 \<longrightarrow>
            js_lt (imbalance_ratio ((xs @ [x]) ! j)) (imbalance_ratio x)"
      using below by (simp add: nth_append)
    moreover have "js_lt (Fin 0) (imbalance_ratio x)"
      using zero_le True by (auto intro: js_lt_trans)
    ultimately show ?thesis
      using True nn new
      by (intro exI[of _ "imbalance_ratio x"]) (auto intro!: exI[of _ "length xs"])
  next
    case False
    then have same: "foldl imbalance_step (None, Fin 0) (xs @ [x]) = (b, h)"
      using st
      by (cases "capacity x > 0") (simp_all add: imbalance_step_positive imbalance_step_no_capacity)
    have "\<forall>j<length (xs @ [x]). capacity ((xs @ [x]) ! j) > 0 \<longrightarrow>
            \<not> js_lt h (imbalance_ratio ((xs @ [x]) ! j))"
      using le False by (auto simp: nth_append less_Suc_eq)
    then show ?thesis
      using same h best keep
      by (intro exI[of _ h]) (auto split: option.splits)
  qed
qed

lemma mostImbalancedChannel_foldl:
  "mostImbalancedChannel (calculateChannelSummary hc channels) =
     fst (foldl imbalance_step (None, Fin 0) channels)"
  by (simp add: calculateChannelSummary_def Let_def)

text \<open>
  Claim C5, as amended. The imbalance ratio of a channel is the double that the source
  computes as \<^verbatim>\<open>Math.abs(0.5 - local_balance / capacity)\<close>. The most imbalanced channel
  is absent exactly when no channel with a positive capacity has a non-zero imbalance
  ratio (in particular for the empty set). Otherwise it is, among the channels with a
  positive capacity, the first one in input order whose ratio is the highest: no such
  channel has a higher ratio and every earlier one has a strictly lower ratio.
\<close>

theorem most_imbalanced_first_maximum:
  "case mostImbalancedChannel (calculateChannelSummary hc channels) of
     None \<Rightarrow>
       (\<forall>j<length channels. capacity (channels ! j) > 0 \<longrightarrow>
           imbalance_ratio (channels ! j) = Fin 0)
   | Some m \<Rightarrow>
       (\<exists>i<length channels. channels ! i = m \<and> capacity m > 0 \<and>
          js_gt (imbalance_ratio m) (Fin 0) \<and>
          (\<forall>j<length channels. capacity (channels ! j) > 0 \<longrightarrow>
              \<not> js_gt (imbalance_ratio (channels ! j)) (imbalance_ratio m)) \<and>
          (\<forall>j<i. capacity (channels ! j) > 0 \<longrightarrow>
              js_gt (imbalance_ratio m) (imbalance_ratio (channels ! j))))"
proof -
  obtain h where h:
      "\<forall>j<length channels. capacity (channels ! j) > 0 \<longrightarrow>
          \<not> js_lt h (imbalance_ratio (channels ! j))"
      "case fst (foldl imbalance_step (None, Fin 0) channels) of
         None \<Rightarrow> h = Fin 0
       | Some m \<Rightarrow> js_lt (Fin 0) h \<and>
           (\<exists>i<length channels. channels ! i = m \<and> capacity m > 0 \<and> imbalance_ratio m = h \<and>
              (\<forall>j<i. capacity (channels ! j) > 0 \<longrightarrow> js_lt (imbalance_ratio (channels ! j)) h))"
    using foldl_imbalance_step [of channels] by blast
  show ?thesis
  proof (cases "fst (foldl imbalance_step (None, Fin 0) channels)")
    case None
    with h have "h = Fin 0" by simp
    with h(1)
    have "\<forall>j<length channels. capacity (channels ! j) > 0 \<longrightarrow>
            imbalance_ratio (channels ! j) = Fin 0"
      by (auto intro: imbalance_ratio_zero)
    with None show ?thesis
      by (simp add: mostImbalancedChannel_foldl)
  next
    case (Some m)
    with h(2) obtain i where i: "js_lt (Fin 0) h" "i < length channels" "channels ! i = m"
        "capacity m > 0" "imbalance_ratio m = h"
        "\<forall>j<i. capacity (channels ! j) > 0 \<longrightarrow> js_lt (imbalance_ratio (channels ! j)) h"
      by auto
    with h(1) Some show ?thesis
      by (simp add: mostImbalancedChannel_foldl js_gt_def) (intro exI[of _ i], simp)
  qed
qed

lemma sample_imbalance_ratios:
  "imbalance_ratio (sample_channel 1000 500 True) = Fin 0"
  "imbalance_ratio (sample_channel 2000 1000 False) = Fin 0"
  "imbalance_ratio (sample_channel 1000 100 True) = Fin (3602879701896397 / 9007199254740992)"
  "imbalance_ratio (sample_channel 1000 900 True) = Fin (3602879701896397 / 9007199254740992)"
  "imbalance_ratio (sample_channel 1000 200 True) = Fin (5404319552844595 / 18014398509481984)"
  "imbalance_ratio (sample_channel 1000 800 True) = Fin (1351079888211149 / 4503599627370496)"
  by (simp_all add: sample_eval)

lemma sample_most_imbalanced:
  "mostImbalancedChannel (calculateChannelSummary default_healthCriteria sample_portfolio) =
     Some (sample_channel 1000 100 True)"
  "mostImbalancedChannel (calculateChannelSummary default_healthCriteria sample_mirrored) =
     Some (sample_channel 1000 800 True)"
  "mostImbalancedChannel
     (calculateChannelSummary default_healthCriteria
        [sample_channel 0 0 True, sample_channel 2000 1000 False]) = None"
  "mostImbalancedChannel
     (calculateChannelSummary default_healthCriteria [sample_channel 1000 500 True]) = None"
  by (simp_all add: calculateChannelSummary_def imbalance_step_def Let_def sample_portfolio_def
        sample_mirrored_def sample_eval)

text \<open>
  On the sample portfolio the second channel is reported: its ratio is the double 0.4, as
  the ratio of the third one is, and it comes first; the balanced channel has the ratio 0.
  Of the two mirrored channels, with the local ratios 0.2 and 0.8, the second is reported:
  their ratios are the doubles 0.3 and 0.30000000000000004. A channel without capacity and
  a balanced one together have no most imbalanced channel.
\<close>

theorem most_imbalanced_first_maximum_witness:
  "mostImbalancedChannel (calculateChannelSummary default_healthCriteria sample_portfolio) =
     Some (sample_channel 1000 100 True) \<and>
   sample_portfolio ! 1 = sample_channel 1000 100 True \<and>
   capacity (sample_channel 1000 100 True) > 0 \<and>
   imbalance_ratio (sample_channel 1000 100 True) = Fin (3602879701896397 / 9007199254740992) \<and>
   imbalance_ratio (sample_channel 1000 900 True) = Fin (3602879701896397 / 9007199254740992) \<and>
   imbalance_ratio (sample_channel 1000 500 True) = Fin 0 \<and>
   mostImbalancedChannel (calculateChannelSummary default_healthCriteria sample_mirrored) =
     Some (sample_channel 1000 800 True) \<and>
   sample_mirrored ! 1 = sample_channel 1000 800 True \<and>
   js_gt (imbalance_ratio (sample_channel 1000 800 True))
     (imbalance_ratio (sample_channel 1000 200 True)) \<and>
   mostImbalancedChannel
     (calculateChannelSummary default_healthCriteria
        [sample_channel 0 0 True, sample_channel 2000 1000 False]) = None \<and>
   capacity (sample_channel 0 0 True) = 0 \<and>
   imbalance_ratio (sample_channel 2000 1000 False) = Fin 0"
proof -
  have nth: "sample_portfolio ! 1 = sample_channel 1000 100 True"
    "sample_mirrored ! 1 = sample_channel 1000 800 True"
    by (simp_all add: sample_portfolio_def sample_mirrored_def)
  have cap: "capacity (sample_channel 1000 100 True) > 0" "capacity (sample_channel 0 0 True) = 0"
    by (simp_all add: sample_channel_def)
  have gt: "js_gt (imbalance_ratio (sample_channel 1000 800 True))
     (imbalance_ratio (sample_channel 1000 200 True))"
    by (simp add: sample_imbalance_ratios js_gt_def)
  from most_imbalanced_first_maximum
          [where hc = default_healthCriteria and channels = sample_portfolio]
       most_imbalanced_first_maximum
          [where hc = default_healthCriteria and channels = sample_mirrored]
       most_imbalanced_first_maximum
          [where hc = default_healthCriteria
             and channels = "[sample_channel 0 0 True, sample_channel 2000 1000 False]"]
       nth cap gt sample_most_imbalanced sample_imbalance_ratios
  show ?thesis by simp
qed

text \<open>
  The claim as stated fails: a set with one perfectly balanced channel is not empty, and
  its summary has no most imbalanced channel, because the ratio 0 of that channel is not
  strictly above the initial highest ratio 0.
\<close>

theorem most_imbalanced_absent_nonempty:
  "[sample_channel 1000 500 True] \<noteq> [] \<and>
   mostImbalancedChannel
     (calculateChannelSummary default_healthCriteria [sample_channel 1000 500 True]) = None"
  by (simp add: sample_most_imbalanced)

section \<open>Properties of the alias resolution\<close>

subsection \<open>The trace\<close>

lemma lookups_append: "lookups (a @ b) = lookups a @ lookups b"
  by (induction a rule: lookups.induct) simp_all

lemma lookups_GetNodeInfo: "lookups (map GetNodeInfo ks) = ks"
  by (induction ks) simp_all

lemma formatter_calls_append:
  "formatter_calls (a @ b) = formatter_calls a @ formatter_calls b"
  by (simp add: formatter_calls_def)

lemma formatter_calls_GetNodeInfo: "formatter_calls (map GetNodeInfo ks) = []"
  by (induction ks) (simp_all add: formatter_calls_def is_format_def)

lemma formatter_calls_node_call:
  "formatter_calls (GetLnd # t) = formatter_calls t"
  "formatter_calls (GetChannels # t) = formatter_calls t"
  "formatter_calls [] = []"
  by (simp_all add: formatter_calls_def is_format_def)

subsection \<open>The three maps\<close>

text \<open>The keys collected by the first loop are the distinct peers of the channels.\<close>

lemma collect_step_keys:
  fixes m :: "(string \<times> string) list"
  shows "distinct (map fst m) \<Longrightarrow>
   distinct (map fst (foldl (\<lambda>pubkeyMap channel.
              if remote_pubkey channel \<in> set (map fst pubkeyMap) then pubkeyMap
              else AList.update (remote_pubkey channel) [] pubkeyMap) m cs)) \<and>
   set (map fst (foldl (\<lambda>pubkeyMap channel.
              if remote_pubkey channel \<in> set (map fst pubkeyMap) then pubkeyMap
              else AList.update (remote_pubkey channel) [] pubkeyMap) m cs)) =
     set (map fst m) \<union> remote_pubkey ` set cs"
proof (induction cs arbitrary: m)
  case Nil
  then show ?case by simp
next
  case (Cons c cs)
  show ?case
  proof (cases "remote_pubkey c \<in> set (map fst m)")
    case True
    with Cons.IH [OF Cons.prems] show ?thesis by auto
  next
    case False
    have d: "distinct (map fst (AList.update (remote_pubkey c) [] m))"
      using Cons.prems by (rule distinct_update)
    from Cons.IH [OF d] False show ?thesis
      by (auto simp: update_keys)
  qed
qed

lemma collect_pubkeys_keys:
  "distinct (map fst (collect_pubkeys channels))"
  "set (map fst (collect_pubkeys channels)) = remote_pubkey ` set channels"
  using collect_step_keys [of "[]" channels] by (simp_all add: collect_pubkeys_def)

lemma lookup_alias_key: "fst (fst (lookup_alias e k)) = k"
  by (simp add: lookup_alias_def split: sum.splits)

lemma lookup_alias_alias:
  "snd (fst (lookup_alias e k)) =
     (case getNodeInfo e k of
        Inr alias \<Rightarrow> or_Unknown alias
      | Inl v \<Rightarrow> ''Unknown (Error retrieving)'')"
  by (simp add: lookup_alias_def split: sum.splits)

lemma lookup_alias_error:
  "snd (lookup_alias e k) =
     (case getNodeInfo e k of
        Inr alias \<Rightarrow> None
      | Inl v \<Rightarrow> Some \<lparr> info_type = ''alias_retrieval_failed'',
                         info_message = message (sanitizeError e v) \<rparr>)"
  by (simp add: lookup_alias_def split: sum.splits)

text \<open>After the second loop every looked-up key is bound to the alias of its lookup.\<close>

lemma map_of_foldl_update:
  "map_of (foldl (\<lambda>m info. AList.update (fst info) (snd info) m) m0
             (map (\<lambda>pubkey. fst (lookup_alias e pubkey)) ks)) k =
     (if k \<in> set ks then Some (snd (fst (lookup_alias e k))) else map_of m0 k)"
proof (induction ks arbitrary: m0)
  case Nil
  show ?case by simp
next
  case (Cons a ks)
  show ?case
    by (simp add: Cons.IH update_conv' lookup_alias_key)
qed

lemma foldl_errorMap:
  "foldl (\<lambda>errorMap pubkey.
              case snd (lookup_alias e pubkey) of
                None \<Rightarrow> errorMap
              | Some errorInfo \<Rightarrow> errorMap(pubkey \<mapsto> errorInfo)) m ks k =
     (if k \<in> set ks
      then (case snd (lookup_alias e k) of None \<Rightarrow> m k | Some i \<Rightarrow> Some i)
      else m k)"
proof (induction ks arbitrary: m)
  case Nil
  show ?case by simp
next
  case (Cons a ks)
  show ?case
    by (simp add: Cons.IH split: option.splits)
qed

lemma build_errorMap_eq:
  "build_errorMap e ks k = (if k \<in> set ks then snd (lookup_alias e k) else None)"
  by (simp add: build_errorMap_def foldl_errorMap split: option.splits)

lemma or_Unknown_idem: "or_Unknown (Some (or_Unknown a)) = or_Unknown a"
  by (simp add: or_Unknown_def split: option.splits)

lemma or_Unknown_placeholder:
  "or_Unknown (Some ''Unknown (Error retrieving)'') = ''Unknown (Error retrieving)''"
  by (simp add: or_Unknown_def)

subsection \<open>The result of addNodeAliases\<close>

lemma add_alias_resolved:
  assumes "remote_pubkey c \<in> set ks"
  shows "add_alias
           (foldl (\<lambda>m info. AList.update (fst info) (snd info) m) m0
              (map (\<lambda>pubkey. fst (lookup_alias e pubkey)) ks))
           (build_errorMap e ks) c =
         (case getNodeInfo e (remote_pubkey c) of
            Inr alias \<Rightarrow>
              channel.extend c \<lparr> remote_alias = or_Unknown alias, error_info = None \<rparr>
          | Inl v \<Rightarrow>
              channel.extend c
                \<lparr> remote_alias = ''Unknown (Error retrieving)'',
                  error_info = Some \<lparr> info_type = ''alias_retrieval_failed'',
                                      info_message = message (sanitizeError e v) \<rparr> \<rparr>)"
  using assms
  by (simp add: add_alias_def map_of_foldl_update build_errorMap_eq lookup_alias_alias
        lookup_alias_error or_Unknown_idem or_Unknown_placeholder split: sum.splits)

text \<open>When \<^verbatim>\<open>getLnd()\<close> returns: one lookup per collected key, and every channel enriched
  from the outcome of the lookup of its peer.\<close>

lemma addNodeAliases_started:
  assumes "getLnd e (lnd_calls t) = None"
  shows "addNodeAliases e t channels =
     (map (\<lambda>c. case getNodeInfo e (remote_pubkey c) of
            Inr alias \<Rightarrow>
              channel.extend c \<lparr> remote_alias = or_Unknown alias, error_info = None \<rparr>
          | Inl v \<Rightarrow>
              channel.extend c
                \<lparr> remote_alias = ''Unknown (Error retrieving)'',
                  error_info = Some \<lparr> info_type = ''alias_retrieval_failed'',
                                      info_message = message (sanitizeError e v) \<rparr> \<rparr>) channels,
      t @ [GetLnd] @ map GetNodeInfo (map fst (collect_pubkeys channels)))"
proof -
  have "map (add_alias
           (foldl (\<lambda>m info. AList.update (fst info) (snd info) m) (collect_pubkeys channels)
              (map (\<lambda>pubkey. fst (lookup_alias e pubkey)) (map fst (collect_pubkeys channels))))
           (build_errorMap e (map fst (collect_pubkeys channels)))) channels =
        map (\<lambda>c. case getNodeInfo e (remote_pubkey c) of
            Inr alias \<Rightarrow>
              channel.extend c \<lparr> remote_alias = or_Unknown alias, error_info = None \<rparr>
          | Inl v \<Rightarrow>
              channel.extend c
                \<lparr> remote_alias = ''Unknown (Error retrieving)'',
                  error_info = Some \<lparr> info_type = ''alias_retrieval_failed'',
                                      info_message = message (sanitizeError e v) \<rparr> \<rparr>) channels"
  proof (rule map_cong [OF refl])
    fix c assume "c \<in> set channels"
    then have "remote_pubkey c \<in> set (map fst (collect_pubkeys channels))"
      by (simp only: collect_pubkeys_keys(2)) simp
    then show "add_alias
           (foldl (\<lambda>m info. AList.update (fst info) (snd info) m) (collect_pubkeys channels)
              (map (\<lambda>pubkey. fst (lookup_alias e pubkey)) (map fst (collect_pubkeys channels))))
           (build_errorMap e (map fst (collect_pubkeys channels))) c =
          (case getNodeInfo e (remote_pubkey c) of
            Inr alias \<Rightarrow>
              channel.extend c \<lparr> remote_alias = or_Unknown alias, error_info = None \<rparr>
          | Inl v \<Rightarrow>
              channel.extend c
                \<lparr> remote_alias = ''Unknown (Error retrieving)'',
                  error_info = Some \<lparr> info_type = ''alias_retrieval_failed'',
                                      info_message = message (sanitizeError e v) \<rparr> \<rparr>)"
      by (rule add_alias_resolved)
  qed
  with assms show ?thesis
    by (simp add: addNodeAliases_def Let_def)
qed

text \<open>When \<^verbatim>\<open>getLnd()\<close> throws: no lookup, every channel marked.\<close>

lemma addNodeAliases_not_started:
  assumes "getLnd e (lnd_calls t) = Some v"
  shows "addNodeAliases e t channels =
           (map (mark_failed (sanitizeError e v)) channels, t @ [GetLnd])"
  using assms by (simp add: addNodeAliases_def)

lemma length_addNodeAliases: "length (fst (addNodeAliases e t channels)) = length channels"
  by (cases "getLnd e (lnd_calls t)")
     (simp_all add: addNodeAliases_started addNodeAliases_not_started)

lemma nth_addNodeAliases_started:
  assumes "getLnd e (lnd_calls t) = None" and "i < length channels"
  shows "fst (addNodeAliases e t channels) ! i =
     (case getNodeInfo e (remote_pubkey (channels ! i)) of
            Inr alias \<Rightarrow>
              channel.extend (channels ! i)
                \<lparr> remote_alias = or_Unknown alias, error_info = None \<rparr>
          | Inl v \<Rightarrow>
              channel.extend (channels ! i)
                \<lparr> remote_alias = ''Unknown (Error retrieving)'',
                  error_info = Some \<lparr> info_type = ''alias_retrieval_failed'',
                                      info_message = message (sanitizeError e v) \<rparr> \<rparr>)"
  using assms by (simp add: addNodeAliases_started)

lemma nth_addNodeAliases_not_started:
  assumes "getLnd e (lnd_calls t) = Some v" and "i < length channels"
  shows "fst (addNodeAliases e t channels) ! i = mark_failed (sanitizeError e v) (channels ! i)"
  using assms by (simp add: addNodeAliases_not_started)

lemma truncate_extend: "channel.truncate (channel.extend c m) = c"
  by (simp add: channel.truncate_def channel.extend_def)

lemma extend_fields:
  "remote_pubkey (channel.extend c m) = remote_pubkey c"
  "capacity (channel.extend c m) = capacity c"
  "local_balance (channel.extend c m) = local_balance c"
  "remote_balance (channel.extend c m) = remote_balance c"
  "active (channel.extend c m) = active c"
  "remote_alias (channel.extend c \<lparr> remote_alias = a, error_info = x \<rparr>) = a"
  "error_info (channel.extend c \<lparr> remote_alias = a, error_info = x \<rparr>) = x"
  by (simp_all add: channel.extend_def)

lemma sample_env_facts:
  "getLnd sample_env (lnd_calls []) = None"
  "getLnd sample_env_down (lnd_calls []) = Some (NotError ''connection lost'')"
  "sanitizeError sample_env = sample_sanitize"
  "sanitizeError sample_env_down = sample_sanitize"
  "getNodeInfo sample_env ''02aa'' = Inr (Some ''alice'')"
  "getNodeInfo sample_env ''02bb'' = Inl (IsError (Error ''no route to /home/lnd''))"
  "getNodeInfo sample_env ''02cc'' = Inr None"
  "getNodeInfo sample_env ''02dd'' = Inr (Some [])"
  by (simp_all add: sample_env_down_def sample_env_def)

subsection \<open>Length and number of lookups\<close>

text \<open>
  Claim C3, as amended. For every channel list, \<^verbatim>\<open>addNodeAliases\<close> returns a list of the
  same length as its input. When \<^verbatim>\<open>lndClient.getLnd()\<close> returns, it issues exactly one
  node-info lookup per distinct \<^verbatim>\<open>remote_pubkey\<close> value: the keys looked up are pairwise
  distinct, they are the peers of the channels, and their number is the number of distinct
  peers. When \<^verbatim>\<open>getLnd()\<close> throws, it issues no lookup.
\<close>

theorem alias_resolution_length_and_lookups:
  "length (fst (addNodeAliases e t channels)) = length channels \<and>
   (getLnd e (lnd_calls t) = None \<longrightarrow>
      (\<exists>ks. lookups (snd (addNodeAliases e t channels)) = lookups t @ ks \<and> distinct ks \<and>
            set ks = remote_pubkey ` set channels \<and>
            length ks = card (remote_pubkey ` set channels))) \<and>
   (getLnd e (lnd_calls t) \<noteq> None \<longrightarrow>
      lookups (snd (addNodeAliases e t channels)) = lookups t)"
proof (intro conjI impI)
  show "length (fst (addNodeAliases e t channels)) = length channels"
    by (rule length_addNodeAliases)
next
  assume ok: "getLnd e (lnd_calls t) = None"
  let ?ks = "map fst (collect_pubkeys channels)"
  have "lookups (snd (addNodeAliases e t channels)) = lookups t @ ?ks"
    by (simp add: addNodeAliases_started [OF ok] lookups_append lookups_GetNodeInfo
          del: map_map)
  moreover have d: "distinct ?ks" and s: "set ?ks = remote_pubkey ` set channels"
    by (rule collect_pubkeys_keys)+
  moreover have "length ?ks = card (remote_pubkey ` set channels)"
    using distinct_card [OF d] s by simp
  ultimately
  show "\<exists>ks. lookups (snd (addNodeAliases e t channels)) = lookups t @ ks \<and> distinct ks \<and>
            set ks = remote_pubkey ` set channels \<and>
            length ks = card (remote_pubkey ` set channels)"
    by blast
next
  assume "getLnd e (lnd_calls t) \<noteq> None"
  then obtain v where "getLnd e (lnd_calls t) = Some v" by auto
  then show "lookups (snd (addNodeAliases e t channels)) = lookups t"
    by (simp add: addNodeAliases_not_started lookups_append)
qed

text \<open>
  Five channels that share three peers: five results and three lookups; five results and
  no lookup when \<^verbatim>\<open>getLnd()\<close> throws.
\<close>

theorem alias_resolution_length_and_lookups_witness:
  "getLnd sample_env (lnd_calls []) = None \<and>
   length sample_peers = 5 \<and>
   length (fst (addNodeAliases sample_env [] sample_peers)) = 5 \<and>
   lookups (snd (addNodeAliases sample_env [] sample_peers)) = [''02aa'', ''02bb'', ''02cc''] \<and>
   remote_pubkey ` set sample_peers = {''02aa'', ''02bb'', ''02cc''} \<and>
   getLnd sample_env_down (lnd_calls []) \<noteq> None \<and>
   length (fst (addNodeAliases sample_env_down [] sample_peers)) = 5 \<and>
   lookups (snd (addNodeAliases sample_env_down [] sample_peers)) = []"
  using alias_resolution_length_and_lookups
          [where e = sample_env and t = "[]" and channels = sample_peers]
        alias_resolution_length_and_lookups
          [where e = sample_env_down and t = "[]" and channels = sample_peers]
  by (simp add: addNodeAliases_def sample_env_down_def sample_env_def sample_peers_def
        peer_channel_def lnd_calls_def collect_pubkeys_def Let_def)

text \<open>
  The claim as stated fails when \<^verbatim>\<open>getLnd()\<close> throws inside \<^verbatim>\<open>addNodeAliases\<close>: the
  \<^verbatim>\<open>catch\<close> block marks the five channels and no lookup is issued for their three peers.
\<close>

theorem alias_resolution_no_lookup_when_not_started:
  "length (lookups (snd (addNodeAliases sample_env_down [] sample_peers))) = 0 \<and>
   card (remote_pubkey ` set sample_peers) = 3 \<and>
   length (fst (addNodeAliases sample_env_down [] sample_peers)) = 5"
  by (simp add: addNodeAliases_not_started [OF sample_env_facts(2)] sample_peers_def
        peer_channel_def card_insert_if)

subsection \<open>Isolation of failures\<close>

text \<open>
  Claim C4. \<^verbatim>\<open>addNodeAliases\<close> returns a list in every case, with one entry per input
  channel, at the position of that channel and for the same peer. When \<^verbatim>\<open>getLnd()\<close>
  returns: a channel whose peer's lookup was rejected has the alias
  \<^verbatim>\<open>Unknown (Error retrieving)\<close> and the annotation
  \<^verbatim>\<open>{ type: 'alias_retrieval_failed', message }\<close> with the sanitized message of that
  rejection; a channel whose peer's lookup succeeded has no annotation and carries the
  alias the lookup gave. When \<^verbatim>\<open>getLnd()\<close> throws: every channel has that alias and one
  and the same annotation, with the sanitized message of what was thrown.
\<close>

theorem alias_resolution_isolates_failures:
  "length (fst (addNodeAliases e t channels)) = length channels \<and>
   (\<forall>i<length channels.
      remote_pubkey (fst (addNodeAliases e t channels) ! i) = remote_pubkey (channels ! i) \<and>
      (case getLnd e (lnd_calls t) of
         Some v \<Rightarrow>
           remote_alias (fst (addNodeAliases e t channels) ! i) =
             ''Unknown (Error retrieving)'' \<and>
           error_info (fst (addNodeAliases e t channels) ! i) =
             Some \<lparr> info_type = ''alias_retrieval_failed'',
                    info_message = message (sanitizeError e v) \<rparr>
       | None \<Rightarrow>
           (case getNodeInfo e (remote_pubkey (channels ! i)) of
              Inl v \<Rightarrow>
                remote_alias (fst (addNodeAliases e t channels) ! i) =
                  ''Unknown (Error retrieving)'' \<and>
                error_info (fst (addNodeAliases e t channels) ! i) =
                  Some \<lparr> info_type = ''alias_retrieval_failed'',
                         info_message = message (sanitizeError e v) \<rparr>
            | Inr alias \<Rightarrow>
                error_info (fst (addNodeAliases e t channels) ! i) = None \<and>
                (\<forall>s. alias = Some s \<and> s \<noteq> [] \<longrightarrow>
                     remote_alias (fst (addNodeAliases e t channels) ! i) = s))))"
proof (cases "getLnd e (lnd_calls t)")
  case None
  then show ?thesis
    by (simp add: length_addNodeAliases nth_addNodeAliases_started [OF None] extend_fields
          or_Unknown_def split: sum.splits)
next
  case (Some v)
  then show ?thesis
    by (simp add: length_addNodeAliases nth_addNodeAliases_not_started [OF Some] mark_failed_def
          extend_fields)
qed

text \<open>
  One of three peers fails: exactly its two channels are marked, the other three carry
  \<^verbatim>\<open>alice\<close> and \<^verbatim>\<open>Unknown\<close>. When \<^verbatim>\<open>getLnd()\<close> throws, all five are marked alike.
\<close>

theorem alias_resolution_isolates_failures_witness:
  "getLnd sample_env (lnd_calls []) = None \<and>
   getNodeInfo sample_env ''02aa'' = Inr (Some ''alice'') \<and>
   getNodeInfo sample_env ''02bb'' = Inl (IsError (Error ''no route to /home/lnd'')) \<and>
   map remote_pubkey sample_peers = [''02aa'', ''02bb'', ''02aa'', ''02cc'', ''02bb''] \<and>
   map remote_alias (fst (addNodeAliases sample_env [] sample_peers)) =
     [''alice'', ''Unknown (Error retrieving)'', ''alice'', ''Unknown'',
      ''Unknown (Error retrieving)''] \<and>
   map error_info (fst (addNodeAliases sample_env [] sample_peers)) =
     [None,
      Some \<lparr> info_type = ''alias_retrieval_failed'',
             info_message = ''sanitized: no route to /home/lnd'' \<rparr>,
      None, None,
      Some \<lparr> info_type = ''alias_retrieval_failed'',
             info_message = ''sanitized: no route to /home/lnd'' \<rparr>] \<and>
   getLnd sample_env_down (lnd_calls []) = Some (NotError ''connection lost'') \<and>
   map remote_alias (fst (addNodeAliases sample_env_down [] sample_peers)) =
     replicate 5 ''Unknown (Error retrieving)'' \<and>
   map error_info (fst (addNodeAliases sample_env_down [] sample_peers)) =
     replicate 5 (Some \<lparr> info_type = ''alias_retrieval_failed'',
                          info_message = ''sanitized: connection lost'' \<rparr>)"
  using alias_resolution_isolates_failures
          [where e = sample_env and t = "[]" and channels = sample_peers]
        alias_resolution_isolates_failures
          [where e = sample_env_down and t = "[]" and channels = sample_peers]
  by (simp add: addNodeAliases_started [OF sample_env_facts(1)]
        addNodeAliases_not_started [OF sample_env_facts(2)] sample_env_facts
        sample_peers_def peer_channel_def mark_failed_def or_Unknown_def
        sample_sanitize_def error_text_def extend_fields numeral_eq_Suc)

subsection \<open>The fields of the input channel\<close>

text \<open>
  Claim C9. The enriched channel at a position is the input channel at that position with
  the two added fields: cutting the added fields off gives the input list back, and each of
  the five fields of the input channel has its value unchanged, whether the lookups ran
  or not.
\<close>

theorem alias_resolution_keeps_channel_fields:
  "map channel.truncate (fst (addNodeAliases e t channels)) = channels \<and>
   (\<forall>i<length channels.
      remote_pubkey (fst (addNodeAliases e t channels) ! i) = remote_pubkey (channels ! i) \<and>
      capacity (fst (addNodeAliases e t channels) ! i) = capacity (channels ! i) \<and>
      local_balance (fst (addNodeAliases e t channels) ! i) = local_balance (channels ! i) \<and>
      remote_balance (fst (addNodeAliases e t channels) ! i) = remote_balance (channels ! i) \<and>
      active (fst (addNodeAliases e t channels) ! i) = active (channels ! i))"
proof (cases "getLnd e (lnd_calls t)")
  case None
  have "map channel.truncate (fst (addNodeAliases e t channels)) = channels"
    unfolding addNodeAliases_started [OF None] fst_conv map_map
    by (rule map_idI) (simp add: truncate_extend split: sum.splits)
  then show ?thesis
    by (simp add: nth_addNodeAliases_started [OF None] extend_fields split: sum.splits)
next
  case (Some v)
  have "map channel.truncate (fst (addNodeAliases e t channels)) = channels"
    unfolding addNodeAliases_not_started [OF Some] fst_conv map_map
    by (rule map_idI) (simp add: mark_failed_def truncate_extend)
  then show ?thesis
    by (simp add: nth_addNodeAliases_not_started [OF Some] mark_failed_def extend_fields)
qed

text \<open>
  The five sample channels come back as they went in, from the lookups and from the
  \<^verbatim>\<open>catch\<close> block alike.
\<close>

theorem alias_resolution_keeps_channel_fields_witness:
  "length sample_peers = 5 \<and>
   map channel.truncate (fst (addNodeAliases sample_env [] sample_peers)) = sample_peers \<and>
   map channel.truncate (fst (addNodeAliases sample_env_down [] sample_peers)) = sample_peers \<and>
   capacity (fst (addNodeAliases sample_env [] sample_peers) ! 1) = 1000 \<and>
   local_balance (fst (addNodeAliases sample_env [] sample_peers) ! 1) = 400 \<and>
   active (fst (addNodeAliases sample_env_down [] sample_peers) ! 4)"
  using alias_resolution_keeps_channel_fields
          [where e = sample_env and t = "[]" and channels = sample_peers]
        alias_resolution_keeps_channel_fields
          [where e = sample_env_down and t = "[]" and channels = sample_peers]
  by (simp add: sample_peers_def peer_channel_def)

subsection \<open>A lookup without an alias\<close>

text \<open>
  Claim C10. When \<^verbatim>\<open>getLnd()\<close> returns and the lookup of a channel's peer succeeds without
  an alias (no node info or no alias in it, or the empty string), the channel gets the
  alias \<^verbatim>\<open>Unknown\<close>, which is not the placeholder of a failed lookup, and no annotation.
\<close>

theorem alias_resolution_missing_alias:
  assumes "getLnd e (lnd_calls t) = None" and "i < length channels"
    and "getNodeInfo e (remote_pubkey (channels ! i)) = Inr None \<or>
         getNodeInfo e (remote_pubkey (channels ! i)) = Inr (Some [])"
  shows "remote_alias (fst (addNodeAliases e t channels) ! i) = ''Unknown'' \<and>
         remote_alias (fst (addNodeAliases e t channels) ! i) \<noteq> ''Unknown (Error retrieving)'' \<and>
         error_info (fst (addNodeAliases e t channels) ! i) = None"
  using assms(3)
  by (auto simp: nth_addNodeAliases_started [OF assms(1,2)] extend_fields or_Unknown_def)

text \<open>
  Peer \<^verbatim>\<open>02cc\<close> has no alias and peer \<^verbatim>\<open>02dd\<close> the empty one: both channels are named
  \<^verbatim>\<open>Unknown\<close> and carry no annotation.
\<close>

theorem alias_resolution_missing_alias_witness:
  "getLnd sample_env (lnd_calls []) = None \<and> length sample_unnamed = 3 \<and>
   getNodeInfo sample_env (remote_pubkey (sample_unnamed ! 0)) = Inr None \<and>
   getNodeInfo sample_env (remote_pubkey (sample_unnamed ! 1)) = Inr (Some []) \<and>
   remote_alias (fst (addNodeAliases sample_env [] sample_unnamed) ! 0) = ''Unknown'' \<and>
   error_info (fst (addNodeAliases sample_env [] sample_unnamed) ! 0) = None \<and>
   remote_alias (fst (addNodeAliases sample_env [] sample_unnamed) ! 1) = ''Unknown'' \<and>
   error_info (fst (addNodeAliases sample_env [] sample_unnamed) ! 1) = None"
proof -
  have ok: "getLnd sample_env (lnd_calls []) = None"
    by (simp add: sample_env_def)
  have len: "length sample_unnamed = 3" "0 < length sample_unnamed" "1 < length sample_unnamed"
    by (simp_all add: sample_unnamed_def)
  have n0: "getNodeInfo sample_env (remote_pubkey (sample_unnamed ! 0)) = Inr None"
    by (simp add: sample_env_def sample_unnamed_def peer_channel_def)
  have n1: "getNodeInfo sample_env (remote_pubkey (sample_unnamed ! 1)) = Inr (Some [])"
    by (simp add: sample_env_def sample_unnamed_def peer_channel_def)
  from alias_resolution_missing_alias [OF ok len(2) disjI1 [OF n0]]
       alias_resolution_missing_alias [OF ok len(3) disjI2 [OF n1]] ok len(1) n0 n1
  show ?thesis by simp
qed

section \<open>Properties of handleQuery\<close>

subsection \<open>Fetching the channel data\<close>

lemma fetchRawChannelData_cases:
  "fetchRawChannelData e t =
     (case getLnd e (lnd_calls t) of
        Some v \<Rightarrow> (Inl v, t @ [GetLnd])
      | None \<Rightarrow>
          (case getChannels e of
             Inl v \<Rightarrow> (Inl v, t @ [GetLnd, GetChannels])
           | Inr cf \<Rightarrow>
               (Inr (case cf of Array cs \<Rightarrow> cs | _ \<Rightarrow> []), t @ [GetLnd, GetChannels])))"
  by (simp add: fetchRawChannelData_def split: option.splits sum.splits channels_field.splits)

lemma formatter_calls_addNodeAliases:
  "formatter_calls (snd (addNodeAliases e t channels)) = formatter_calls t"
  by (cases "getLnd e (lnd_calls t)")
     (simp_all add: addNodeAliases_started addNodeAliases_not_started formatter_calls_append
        formatter_calls_GetNodeInfo formatter_calls_node_call del: map_map)

lemma formatter_calls_enrich:
  "formatter_calls (snd (enrichChannelsWithMetadata e t channels)) = formatter_calls t"
  by (simp add: enrichChannelsWithMetadata_def formatter_calls_addNodeAliases)

text \<open>A failed fetch leaves \<^verbatim>\<open>getChannelData\<close> as the sanitized error.\<close>

lemma getChannelData_fetch_failed:
  assumes "getLnd e (lnd_calls t) = Some raw \<or>
           (getLnd e (lnd_calls t) = None \<and> getChannels e = Inl raw)"
  shows "fst (getChannelData hc e t) = Inl (IsError (sanitizeError e raw))"
  using assms by (auto simp: getChannelData_def fetchRawChannelData_cases)

text \<open>Nothing else makes \<^verbatim>\<open>getChannelData\<close> throw.\<close>

lemma getChannelData_error_cases:
  assumes "fst (getChannelData hc e t) = Inl v"
  shows "\<exists>raw. v = IsError (sanitizeError e raw) \<and>
           (getLnd e (lnd_calls t) = Some raw \<or>
            (getLnd e (lnd_calls t) = None \<and> getChannels e = Inl raw))"
  using assms
  by (auto simp: getChannelData_def fetchRawChannelData_cases
        split: option.splits sum.splits prod.splits)

text \<open>A fetch that succeeds gives channel data, and no formatter view is called for it.\<close>

lemma getChannelData_fetched:
  assumes "getLnd e (lnd_calls t) = None" and "getChannels e = Inr cf"
  shows "\<exists>d t1. getChannelData hc e t = (Inr d, t1) \<and> formatter_calls t1 = formatter_calls t"
proof -
  obtain cs where f: "fetchRawChannelData e t = (Inr cs, t @ [GetLnd, GetChannels])"
    using assms by (simp add: fetchRawChannelData_cases)
  obtain en t2 where en: "enrichChannelsWithMetadata e (t @ [GetLnd, GetChannels]) cs = (en, t2)"
    by (cases "enrichChannelsWithMetadata e (t @ [GetLnd, GetChannels]) cs")
  have "formatter_calls t2 = formatter_calls (t @ [GetLnd, GetChannels])"
    using formatter_calls_enrich [of e "t @ [GetLnd, GetChannels]" cs] en by simp
  then have "formatter_calls t2 = formatter_calls t"
    by (simp add: formatter_calls_append formatter_calls_node_call)
  with f en show ?thesis
    by (simp add: getChannelData_def)
qed

lemma format_case_shape:
  "fst (format_case ty c view d t) = Inr r \<Longrightarrow> q_error r = None \<and> q_type r = ty"
  by (auto simp: format_case_def split: sum.splits)

lemma format_response_shape:
  assumes "fst (format_response e i d t) = Inr r"
  shows "q_error r = None \<and>
         q_type r \<in> {''channel_list'', ''channel_health'', ''channel_liquidity'', ''unknown''}"
proof -
  consider (l) "intent_type i = ''channel_list''"
    | (h) "intent_type i \<noteq> ''channel_list''" "intent_type i = ''channel_health''"
    | (q) "intent_type i \<noteq> ''channel_list''" "intent_type i \<noteq> ''channel_health''"
          "intent_type i = ''channel_liquidity''"
    | (u) "intent_type i \<noteq> ''channel_list''" "intent_type i \<noteq> ''channel_health''"
          "intent_type i \<noteq> ''channel_liquidity''"
    by blast
  then show ?thesis
  proof cases
    case l
    with assms format_case_shape [of "''channel_list''" FormatChannelList "formatChannelList e" d t r]
    show ?thesis by (simp add: format_response_def)
  next
    case h
    with assms
      format_case_shape [of "''channel_health''" FormatChannelHealth "formatChannelHealth e" d t r]
    show ?thesis by (simp add: format_response_def)
  next
    case q
    with assms
      format_case_shape
        [of "''channel_liquidity''" FormatChannelLiquidity "formatChannelLiquidity e" d t r]
    show ?thesis by (simp add: format_response_def)
  next
    case u
    with assms show ?thesis by (auto simp: format_response_def)
  qed
qed

lemma error_result_shape:
  "q_error (error_result v) \<noteq> None \<and> q_type (error_result v) = ''error'' \<and>
   q_data (error_result v) = None"
  by (simp add: error_result_def)

subsection \<open>Errors become results\<close>

text \<open>
  Claim C1. For every intent, \<^verbatim>\<open>handleQuery\<close> returns a result. When the channel retrieval
  fails, because \<^verbatim>\<open>getLnd()\<close> throws \<open>raw\<close> or because the fetch of the channels throws
  \<open>raw\<close> (what the call was rejected with, or the \<^verbatim>\<open>TypeError\<close> for a response that is
  \<^verbatim>\<open>undefined\<close> or \<^verbatim>\<open>null\<close>),
  the result has the type \<^verbatim>\<open>error\<close>, the text and response built from the message of the
  sanitized error, that sanitized error in its error field and the empty data. Every
  error that leaves \<^verbatim>\<open>getChannelData\<close> is such a sanitized retrieval error: enrichment and
  summary raise none. In general a result either carries an error, and then has the type
  \<^verbatim>\<open>error\<close> and empty data, or carries none and has one of the four other types.
\<close>

theorem handleQuery_returns_sanitized_error:
  "(getLnd e (lnd_calls t) = Some raw \<or>
      (getLnd e (lnd_calls t) = None \<and> getChannels e = Inl raw) \<longrightarrow>
    fst (handleQuery hc e t i) =
      \<lparr> q_type = ''error'',
        q_text = ''Error processing your query: '' @ message (sanitizeError e raw),
        q_response = ''Error processing your query: '' @ message (sanitizeError e raw),
        q_data = None,
        q_error = Some (sanitizeError e raw) \<rparr>) \<and>
   (\<forall>v. fst (getChannelData hc e t) = Inl v \<longrightarrow>
      (\<exists>raw'. v = IsError (sanitizeError e raw') \<and>
          (getLnd e (lnd_calls t) = Some raw' \<or>
           (getLnd e (lnd_calls t) = None \<and> getChannels e = Inl raw')))) \<and>
   (case q_error (fst (handleQuery hc e t i)) of
      Some err \<Rightarrow>
        q_type (fst (handleQuery hc e t i)) = ''error'' \<and>
        q_data (fst (handleQuery hc e t i)) = None
    | None \<Rightarrow>
        q_type (fst (handleQuery hc e t i)) \<in>
          {''channel_list'', ''channel_health'', ''channel_liquidity'', ''unknown''})"
proof (intro conjI impI allI)
  assume a: "getLnd e (lnd_calls t) = Some raw \<or>
      (getLnd e (lnd_calls t) = None \<and> getChannels e = Inl raw)"
  obtain t1 where "getChannelData hc e t = (Inl (IsError (sanitizeError e raw)), t1)"
    using getChannelData_fetch_failed [OF a, of hc] by (cases "getChannelData hc e t") simp
  then show "fst (handleQuery hc e t i) =
      \<lparr> q_type = ''error'',
        q_text = ''Error processing your query: '' @ message (sanitizeError e raw),
        q_response = ''Error processing your query: '' @ message (sanitizeError e raw),
        q_data = None,
        q_error = Some (sanitizeError e raw) \<rparr>"
    by (simp add: handleQuery_def handleQuery_try_def error_result_def error_text_def)
next
  fix v assume "fst (getChannelData hc e t) = Inl v"
  then show "\<exists>raw'. v = IsError (sanitizeError e raw') \<and>
          (getLnd e (lnd_calls t) = Some raw' \<or>
           (getLnd e (lnd_calls t) = None \<and> getChannels e = Inl raw'))"
    by (rule getChannelData_error_cases)
next
  obtain r t1 where g: "handleQuery_try hc e t i = (r, t1)"
    by (cases "handleQuery_try hc e t i")
  show "case q_error (fst (handleQuery hc e t i)) of
      Some err \<Rightarrow>
        q_type (fst (handleQuery hc e t i)) = ''error'' \<and>
        q_data (fst (handleQuery hc e t i)) = None
    | None \<Rightarrow>
        q_type (fst (handleQuery hc e t i)) \<in>
          {''channel_list'', ''channel_health'', ''channel_liquidity'', ''unknown''}"
  proof (cases r)
    case (Inl v)
    with g have "fst (handleQuery hc e t i) = error_result v"
      by (simp add: handleQuery_def)
    with error_result_shape [of v] show ?thesis
      by (auto split: option.splits)
  next
    case (Inr res)
    with g have res: "fst (handleQuery hc e t i) = res"
      by (simp add: handleQuery_def)
    obtain d t0 where "getChannelData hc e t = (Inr d, t0)"
      using g Inr
      by (cases "getChannelData hc e t") (auto simp: handleQuery_try_def split: sum.splits)
    with g Inr have "fst (format_response e i d t0) = Inr res"
      by (simp add: handleQuery_try_def)
    from format_response_shape [OF this] res show ?thesis
      by simp
  qed
qed

text \<open>
  A thrown string and a rejected fetch, each with a known and with an unknown intent: the
  result is the error result with the sanitized message.
\<close>

theorem handleQuery_returns_sanitized_error_witness:
  "getLnd sample_env_down (lnd_calls []) = Some (NotError ''connection lost'') \<and>
   fst (handleQuery default_healthCriteria sample_env_down [] sample_intent_list) =
     \<lparr> q_type = ''error'',
       q_text = ''Error processing your query: sanitized: connection lost'',
       q_response = ''Error processing your query: sanitized: connection lost'',
       q_data = None,
       q_error = Some (Error ''sanitized: connection lost'') \<rparr> \<and>
   getLnd sample_env_rejecting (lnd_calls []) = None \<and>
   getChannels sample_env_rejecting = Inl (IsError (Error ''rpc failed: /home/lnd/tls.cert'')) \<and>
   fst (handleQuery default_healthCriteria sample_env_rejecting [] sample_intent_bogus) =
     \<lparr> q_type = ''error'',
       q_text = ''Error processing your query: sanitized: rpc failed: /home/lnd/tls.cert'',
       q_response = ''Error processing your query: sanitized: rpc failed: /home/lnd/tls.cert'',
       q_data = None,
       q_error = Some (Error ''sanitized: rpc failed: /home/lnd/tls.cert'') \<rparr>"
proof -
  have down: "getLnd sample_env_down (lnd_calls []) = Some (NotError ''connection lost'')"
    by (rule sample_env_facts(2))
  have rej: "getLnd sample_env_rejecting (lnd_calls []) = None"
    "getChannels sample_env_rejecting = Inl (IsError (Error ''rpc failed: /home/lnd/tls.cert''))"
    by (simp_all add: sample_env_rejecting_def sample_env_def getChannels_def)
  have san: "sanitizeError sample_env_down (NotError ''connection lost'') =
               Error ''sanitized: connection lost''"
    "sanitizeError sample_env_rejecting (IsError (Error ''rpc failed: /home/lnd/tls.cert'')) =
       Error ''sanitized: rpc failed: /home/lnd/tls.cert''"
    by (simp_all add: sample_env_rejecting_def sample_env_down_def sample_env_def
          sample_sanitize_def error_text_def)
  show ?thesis
    using handleQuery_returns_sanitized_error
            [where e = sample_env_down and t = "[]" and raw = "NotError ''connection lost''"
               and hc = default_healthCriteria and i = sample_intent_list]
          handleQuery_returns_sanitized_error
            [where e = sample_env_rejecting and t = "[]"
               and raw = "IsError (Error ''rpc failed: /home/lnd/tls.cert'')"
               and hc = default_healthCriteria and i = sample_intent_bogus]
    by (simp add: down rej san)
qed

subsection \<open>Intents of no known type\<close>

text \<open>
  Claim C7. For every intent whose type is none of \<^verbatim>\<open>channel_list\<close>, \<^verbatim>\<open>channel_health\<close>
  and \<^verbatim>\<open>channel_liquidity\<close>, and provided the channel fetch does not fail (\<^verbatim>\<open>getLnd()\<close>
  returns and \<^verbatim>\<open>getChannels\<close> resolves to an object), \<^verbatim>\<open>handleQuery\<close> returns the result of type
  \<^verbatim>\<open>unknown\<close> with the fixed guidance text and empty data, and calls no formatter view.
\<close>

theorem handleQuery_unknown_intent:
  assumes "intent_type i \<noteq> ''channel_list''" and "intent_type i \<noteq> ''channel_health''"
    and "intent_type i \<noteq> ''channel_liquidity''"
    and "getLnd e (lnd_calls t) = None" and "getChannels e = Inr cf"
  shows "fst (handleQuery hc e t i) =
           \<lparr> q_type = ''unknown'',
             q_text = ''I didn't understand that query. Try asking about your channel list, health, or liquidity.'',
             q_response = ''I didn't understand that query. Try asking about your channel list, health, or liquidity.'',
             q_data = None, q_error = None \<rparr> \<and>
         formatter_calls (snd (handleQuery hc e t i)) = formatter_calls t"
proof -
  obtain d t1 where "getChannelData hc e t = (Inr d, t1)" "formatter_calls t1 = formatter_calls t"
    using getChannelData_fetched [OF assms(4,5)] by blast
  with assms(1-3) show ?thesis
    by (simp add: handleQuery_def handleQuery_try_def format_response_def guidance_def)
qed

text \<open>
  The intent type \<^verbatim>\<open>bogus\<close> on a node with five channels: the guidance is returned and
  the trace holds no formatter call.
\<close>

theorem handleQuery_unknown_intent_witness:
  "intent_type sample_intent_bogus = ''bogus'' \<and>
   getLnd sample_env (lnd_calls []) = None \<and>
   getChannels sample_env = Inr (Array sample_peers) \<and>
   q_type (fst (handleQuery default_healthCriteria sample_env [] sample_intent_bogus)) =
     ''unknown'' \<and>
   q_text (fst (handleQuery default_healthCriteria sample_env [] sample_intent_bogus)) =
     ''I didn't understand that query. Try asking about your channel list, health, or liquidity.'' \<and>
   q_data (fst (handleQuery default_healthCriteria sample_env [] sample_intent_bogus)) = None \<and>
   formatter_calls (snd (handleQuery default_healthCriteria sample_env [] sample_intent_bogus)) = []"
proof -
  have ty: "intent_type sample_intent_bogus = ''bogus''"
    by (simp add: sample_intent_bogus_def)
  have ne: "intent_type sample_intent_bogus \<noteq> ''channel_list''"
    "intent_type sample_intent_bogus \<noteq> ''channel_health''"
    "intent_type sample_intent_bogus \<noteq> ''channel_liquidity''"
    by (simp_all add: sample_intent_bogus_def)
  have ok: "getLnd sample_env (lnd_calls []) = None"
    by (rule sample_env_facts(1))
  have ch: "getChannels sample_env = Inr (Array sample_peers)"
    by (simp add: sample_env_def getChannels_def)
  from handleQuery_unknown_intent [OF ne ok ch, of default_healthCriteria] ty ok ch
  show ?thesis
    by (simp add: formatter_calls_node_call)
qed

subsection \<open>A fetch without a channel list\<close>

text \<open>
  When \<^verbatim>\<open>getLnd()\<close> returns and the fetch resolves to an object whose \<^verbatim>\<open>channels\<close>
  property is absent or not an array, the fetch gives the empty list and no error; for
  the empty list the enrichment returns the empty list and makes no call; the channel data
  are the empty list with the summary whose totals and counters are all 0 and that has no
  most imbalanced channel; no lookup is issued; and the \<^verbatim>\<open>try\<close> block of \<^verbatim>\<open>handleQuery\<close>
  goes on to format these data as it formats any other.
\<close>

lemma missing_channel_list_is_empty_set:
  assumes "getLnd e (lnd_calls t) = None"
    and "lnService_getChannels e = Inr (Response Absent) \<or>
         lnService_getChannels e = Inr (Response NotArray)"
  shows "fetchRawChannelData e t = (Inr [], t @ [GetLnd, GetChannels]) \<and>
         enrichChannelsWithMetadata e (t @ [GetLnd, GetChannels]) [] =
           ([], t @ [GetLnd, GetChannels]) \<and>
         getChannelData hc e t =
           (Inr \<lparr> cqr_channels = [],
                  cqr_summary =
                    \<lparr> totalCapacity = 0, totalLocalBalance = 0, totalRemoteBalance = 0,
                      activeChannels = 0, inactiveChannels = 0, averageCapacity = Fin 0,
                      mostImbalancedChannel = None, healthyChannels = 0,
                      unhealthyChannels = 0 \<rparr> \<rparr>,
            t @ [GetLnd, GetChannels]) \<and>
         lookups (snd (getChannelData hc e t)) = lookups t \<and>
         handleQuery_try hc e t i =
           format_response e i
             \<lparr> cqr_channels = [],
               cqr_summary =
                 \<lparr> totalCapacity = 0, totalLocalBalance = 0, totalRemoteBalance = 0,
                   activeChannels = 0, inactiveChannels = 0, averageCapacity = Fin 0,
                   mostImbalancedChannel = None, healthyChannels = 0,
                   unhealthyChannels = 0 \<rparr> \<rparr>
             (t @ [GetLnd, GetChannels])"
proof -
  have "getChannels e = Inr Absent \<or> getChannels e = Inr NotArray"
    using assms(2) by (auto simp: getChannels_def)
  with assms(1) have f: "fetchRawChannelData e t = (Inr [], t @ [GetLnd, GetChannels])"
    by (auto simp: fetchRawChannelData_cases)
  have en: "enrichChannelsWithMetadata e (t @ [GetLnd, GetChannels]) [] =
              ([], t @ [GetLnd, GetChannels])"
    by (simp add: enrichChannelsWithMetadata_def)
  have g: "getChannelData hc e t =
           (Inr \<lparr> cqr_channels = [],
                  cqr_summary =
                    \<lparr> totalCapacity = 0, totalLocalBalance = 0, totalRemoteBalance = 0,
                      activeChannels = 0, inactiveChannels = 0, averageCapacity = Fin 0,
                      mostImbalancedChannel = None, healthyChannels = 0,
                      unhealthyChannels = 0 \<rparr> \<rparr>,
            t @ [GetLnd, GetChannels])"
    by (simp add: getChannelData_def f en calculateChannelSummary_def)
  from f en g show ?thesis
    by (simp add: handleQuery_try_def lookups_append)
qed

text \<open>
  A response without the property, asked for the channel list: the handler returns the
  result of type \<^verbatim>\<open>channel_list\<close> with no error and the empty channel data.
\<close>

lemma missing_channel_list_example:
  "handleQuery default_healthCriteria sample_env_absent [] sample_intent_list =
     (\<lparr> q_type = ''channel_list'', q_text = ''list'', q_response = ''list'',
        q_data = Some \<lparr> cqr_channels = [],
                  cqr_summary =
                    \<lparr> totalCapacity = 0, totalLocalBalance = 0, totalRemoteBalance = 0,
                      activeChannels = 0, inactiveChannels = 0, averageCapacity = Fin 0,
                      mostImbalancedChannel = None, healthyChannels = 0,
                      unhealthyChannels = 0 \<rparr> \<rparr>,
        q_error = None \<rparr>,
      [GetLnd, GetChannels, FormatChannelList, FormatChannelList])"
proof -
  have ok: "getLnd sample_env_absent (lnd_calls []) = None"
    by (simp add: sample_env_absent_def sample_env_def)
  have ab: "lnService_getChannels sample_env_absent = Inr (Response Absent)"
    by (simp add: sample_env_absent_def)
  have fm: "formatChannelList sample_env_absent = (\<lambda>d. Inr ''list'')"
    by (simp add: sample_env_absent_def sample_env_def)
  from missing_channel_list_is_empty_set
         [OF ok disjI1 [OF ab], of default_healthCriteria sample_intent_list]
  show ?thesis
    by (simp add: handleQuery_def format_response_def format_case_def fm sample_intent_list_def)
qed

text \<open>
  A fetch that resolves to \<^verbatim>\<open>undefined\<close> or \<^verbatim>\<open>null\<close> never reaches the test of the
  \<^verbatim>\<open>channels\<close> property: the destructuring throws, \<^verbatim>\<open>getChannelData\<close> sanitizes what
  was thrown, and \<^verbatim>\<open>handleQuery\<close> returns the error result, for every intent.
\<close>

lemma nullish_response_throws:
  assumes "getLnd e (lnd_calls t) = None" and "lnService_getChannels e = Inr Nullish"
  shows "fetchRawChannelData e t =
           (Inl (IsError (destructuring_TypeError e)), t @ [GetLnd, GetChannels]) \<and>
         handleQuery hc e t i =
           (error_result (IsError (sanitizeError e (IsError (destructuring_TypeError e)))),
            t @ [GetLnd, GetChannels])"
proof -
  have "getChannels e = Inl (IsError (destructuring_TypeError e))"
    using assms(2) by (simp add: getChannels_def)
  with assms(1)
  have f: "fetchRawChannelData e t =
             (Inl (IsError (destructuring_TypeError e)), t @ [GetLnd, GetChannels])"
    by (simp add: fetchRawChannelData_cases)
  then show ?thesis
    by (simp add: handleQuery_def handleQuery_try_def getChannelData_def)
qed

text \<open>
  Claim C8. A fetch that yields no data is to be treated as an empty channel set and not
  as an error. The handler does so for a response object without a channel list, as shown
  above. It does not for a fetch that resolves to \<^verbatim>\<open>undefined\<close>: asked for the channel list
  on such a node, \<^verbatim>\<open>handleQuery\<close> returns the result of type \<^verbatim>\<open>error\<close> with the sanitized
  \<^verbatim>\<open>TypeError\<close> and empty data, after the two calls of the fetch. The lookup of a node's
  alias guards the same situation, with \<^verbatim>\<open>nodeInfo?.alias\<close>.
\<close>

theorem nullish_response_is_error_result:
  "getLnd sample_env_nullish (lnd_calls []) = None \<and>
   lnService_getChannels sample_env_nullish = Inr Nullish \<and>
   handleQuery default_healthCriteria sample_env_nullish [] sample_intent_list =
     (\<lparr> q_type = ''error'',
        q_text = ''Error processing your query: sanitized: Cannot destructure property 'channels' of '(intermediate value)' as it is undefined.'',
        q_response = ''Error processing your query: sanitized: Cannot destructure property 'channels' of '(intermediate value)' as it is undefined.'',
        q_data = None,
        q_error = Some (Error ''sanitized: Cannot destructure property 'channels' of '(intermediate value)' as it is undefined.'') \<rparr>,
      [GetLnd, GetChannels])"
proof -
  have ok: "getLnd sample_env_nullish (lnd_calls []) = None"
    by (simp add: sample_env_nullish_def sample_env_def)
  have nu: "lnService_getChannels sample_env_nullish = Inr Nullish"
    by (simp add: sample_env_nullish_def)
  have san: "sanitizeError sample_env_nullish = sample_sanitize"
    "destructuring_TypeError sample_env_nullish =
       Error ''Cannot destructure property 'channels' of '(intermediate value)' as it is undefined.''"
    by (simp_all add: sample_env_nullish_def sample_env_def)
  from nullish_response_throws [OF ok nu, of default_healthCriteria sample_intent_list] ok nu
  show ?thesis
    by (simp add: san error_result_def error_text_def sample_sanitize_def)
qed

end
